theory Spec2Isabelle
  imports Main "HOL-Library.Word"
begin

section \<open>Data model\<close>

text \<open>
  The development embeds \<^verbatim>\<open>src/planner/match/Expand.cpp\<close>: the compiler that unrolls a
  bounded variable-length edge pattern into a plan of fetch, filter, projection, join
  and union nodes.

  Plan nodes live in the object pool of the query context and are referred to by
  pointer. The pool is a list of nodes and a pointer is an index into it, so
  creating a node appends to the list and the setters of a node update its entry.
  A pointer that is read is taken to point into the pool: the lemmas that depend on
  what a read returns say so by a bound on the index.

  An edge type is a signed 32-bit integer, so it is a 32-bit word here, read as a
  signed number by \<open>sint\<close>. The only operation on it is negation, which wraps around:
  it gives the negated number for every value but the least one, \<open>-2147483648\<close>,
  which it leaves as it is. The statements about a negated type id therefore carry
  the bound that no edge type is this least value.
\<close>

type_synonym EdgeType = "32 word"
type_synonym GraphSpaceID = nat
type_synonym NodeRef = nat

datatype Direction = OUT_EDGE | IN_EDGE | BOTH

text \<open>The thrift structure \<^verbatim>\<open>storage::cpp2::EdgeProp\<close>: an edge type and a list of property names.\<close>

record EdgeProp =
  type_e :: EdgeType
  props :: "string list"

datatype Value = IntValue int | BoolValue bool | StrValue string

datatype ExprKind =
    kConstant | kLabel | kLabelAttribute | kAttribute | kVertex | kEdge
  | kInputProperty | kVarProperty | kPathBuild | kFunctionCall
  | kRelEQ | kRelNE | kRelLT | kRelLE | kRelGT | kRelGE
  | kLogicalAnd | kLogicalOr | kUnaryNot | kAdd | kMinus

text \<open>
  Expression trees. A label attribute \<^verbatim>\<open>l.f\<close> holds the label name and the constant naming
  the field (\<^verbatim>\<open>la->right()\<close>); an attribute expression holds two sub-expressions.
\<close>

datatype Expression =
    ConstantExpression Value
  | LabelExpression string
  | LabelAttributeExpression string Value
  | AttributeExpression Expression Expression
  | VertexExpression
  | EdgeExpression
  | InputPropertyExpression string
  | VariablePropertyExpression string string
  | PathBuildExpression "Expression list"
  | FunctionCallExpression string "Expression list"
  | RelationalExpression ExprKind Expression Expression
  | LogicalExpression ExprKind Expression Expression
  | ArithmeticExpression ExprKind Expression Expression
  | UnaryExpression ExprKind Expression

fun exprKind :: "Expression \<Rightarrow> ExprKind" where
  "exprKind (ConstantExpression v) = kConstant"
| "exprKind (LabelExpression l) = kLabel"
| "exprKind (LabelAttributeExpression l f) = kLabelAttribute"
| "exprKind (AttributeExpression a b) = kAttribute"
| "exprKind VertexExpression = kVertex"
| "exprKind EdgeExpression = kEdge"
| "exprKind (InputPropertyExpression p) = kInputProperty"
| "exprKind (VariablePropertyExpression v p) = kVarProperty"
| "exprKind (PathBuildExpression es) = kPathBuild"
| "exprKind (FunctionCallExpression f es) = kFunctionCall"
| "exprKind (RelationalExpression k a b) = k"
| "exprKind (LogicalExpression k a b) = k"
| "exprKind (ArithmeticExpression k a b) = k"
| "exprKind (UnaryExpression k a) = k"

text \<open>
  \<^verbatim>\<open>MatchStepRange\<close>: the declared hop range, two 64-bit signed integers. They are
  \<open>int\<close> here: the source compares them, and increments the loop index only while it
  is below the maximum, so no operation on them wraps around.
\<close>

record MatchStepRange =
  min_r :: int
  max_r :: int

record EdgeInfo =
  direction :: Direction
  edgeTypes :: "EdgeType list"
  range_e :: "MatchStepRange option"
  filter_e :: "Expression option"

record NodeInfo =
  filter_n :: "Expression option"

section \<open>Constants and collaborators that the source file only uses\<close>

text \<open>
  Modelled from the spec: the column-name constants \<^verbatim>\<open>kSrc\<close>, \<^verbatim>\<open>kType\<close>, \<^verbatim>\<open>kRank\<close>,
  \<^verbatim>\<open>kDst\<close>, \<^verbatim>\<open>kVid\<close> and \<^verbatim>\<open>kPathStr\<close> are declared outside \<^verbatim>\<open>Expand.cpp\<close>. The spec
  names the fixed edge columns source, type, rank and destination, the frontier
  column the vertex id, and the path column \<^verbatim>\<open>path\<close>.
\<close>

definition kSrc :: string where "kSrc = ''source''"
definition kType :: string where "kType = ''type''"
definition kRank :: string where "kRank = ''rank''"
definition kDst :: string where "kDst = ''destination''"
definition kVid :: string where "kVid = ''vid''"
definition kPathStr :: string where "kPathStr = ''path''"

text \<open>
  Modelled from the spec: the edge schema returned by the schema manager is the full
  ordered list of field names of an edge type; \<^verbatim>\<open>getNumFields\<close> and \<^verbatim>\<open>getFieldName\<close> read it.
\<close>

type_synonym EdgeSchema = "string list"

definition getNumFields :: "EdgeSchema \<Rightarrow> nat" where
  "getNumFields edgeSchema = length edgeSchema"

definition getFieldName :: "EdgeSchema \<Rightarrow> nat \<Rightarrow> string" where
  "getFieldName edgeSchema i = edgeSchema ! i"

section \<open>Edge property specifications\<close>

text \<open>
  The part of the \<^verbatim>\<open>Expand\<close> object and of its match context that \<^verbatim>\<open>genEdgeProps\<close> reads:
  the space id, the schema manager's lookup (a parameter: the catalog is a
  collaborator) and the \<^verbatim>\<open>reversely_\<close> flag.
\<close>

record EdgeCtx =
  space_id :: GraphSpaceID
  getEdgeSchema :: "GraphSpaceID \<Rightarrow> EdgeType \<Rightarrow> EdgeSchema"
  reversely :: bool

text \<open>
  The block that appears twice in \<^verbatim>\<open>genEdgeProps\<close>: a property specification of the given
  type whose properties are the four fixed columns followed by the schema fields,
  appended one by one by the loop over \<^verbatim>\<open>i < getNumFields()\<close>.
\<close>

definition mkEdgeProp :: "EdgeType \<Rightarrow> EdgeSchema \<Rightarrow> EdgeProp" where
  "mkEdgeProp edgeType edgeSchema =
     \<lparr>type_e = edgeType,
      props = foldl (\<lambda>ps i. ps @ [getFieldName edgeSchema i])
                [kSrc, kType, kRank, kDst] [0..<getNumFields edgeSchema]\<rparr>"

text \<open>One iteration of the loop over \<^verbatim>\<open>edge.edgeTypes\<close>.\<close>

definition genEdgePropsStep ::
  "('a EdgeCtx_scheme) \<Rightarrow> ('b EdgeInfo_scheme) \<Rightarrow> EdgeProp list \<Rightarrow> EdgeType \<Rightarrow> EdgeProp list" where
  "genEdgePropsStep ex edge edgeProps edgeType =
     (let edgeSchema = getEdgeSchema ex (space_id ex) edgeType in
      case direction edge of
        OUT_EDGE \<Rightarrow>
          (let edgeType' = (if reversely ex then - edgeType else edgeType)
           in edgeProps @ [mkEdgeProp edgeType' edgeSchema])
      | IN_EDGE \<Rightarrow>
          (let edgeType' = (if \<not> reversely ex then - edgeType else edgeType)
           in edgeProps @ [mkEdgeProp edgeType' edgeSchema])
      | BOTH \<Rightarrow>
          (let edgeProps' = edgeProps @ [mkEdgeProp (- edgeType) edgeSchema]
           in edgeProps' @ [mkEdgeProp edgeType edgeSchema]))"

definition genEdgeProps :: "('a EdgeCtx_scheme) \<Rightarrow> ('b EdgeInfo_scheme) \<Rightarrow> EdgeProp list" where
  "genEdgeProps ex edge = foldl (genEdgePropsStep ex edge) [] (edgeTypes edge)"

section \<open>Plan nodes and the object pool\<close>

text \<open>
  Modelled from the spec: \<^verbatim>\<open>PlanNode.h\<close>, \<^verbatim>\<open>Query.h\<close> and \<^verbatim>\<open>Logic.h\<close> are not part of the
  sources at hand. A plan node has a kind from a closed enumeration, an output
  variable, an ordered list of column names and up to two dependencies held by
  reference; the pool owns every node and never frees one. The kinds of the
  algorithmic nodes are those \<^verbatim>\<open>Algo.h\<close> names.
\<close>

datatype Kind =
    kGetNeighbors | kFilter | kProject | kDedup | kUnion | kInnerJoin | kPassThrough
  | kProduceSemiShortestPath | kBFSShortest | kConjunctPath | kProduceAllPaths
  | kCartesianProduct

record VertexProp =
  tag_v :: int
  props_v :: "string list"

text \<open>\<^verbatim>\<open>YieldColumn(expr, alias)\<close>; the alias is optional.\<close>

record YieldColumn =
  expr_y :: Expression
  alias_y :: "string option"

text \<open>What a node carries besides the attributes every node has.\<close>

datatype NodeDetail =
    NoDetail
  | FilterDetail Expression
  | ProjectDetail "YieldColumn list"
  | ExtractVidDetail "Expression option" string
  | GetNeighborsDetail GraphSpaceID Expression "VertexProp list" "EdgeProp list" Direction

record PlanNode =
  kind :: Kind
  outputVar :: string
  colNames :: "string list"
  dependencies :: "NodeRef list"
  detail :: NodeDetail

text \<open>\<^verbatim>\<open>SubPlan\<close>: the root and the tail of a fragment, two node pointers.\<close>

record SubPlan =
  root :: NodeRef
  tail :: NodeRef

text \<open>
  A failed \<^verbatim>\<open>DCHECK\<close> (an abort in a debug build, and undefined behaviour right after
  it in a release build) and a non-OK \<^verbatim>\<open>Status\<close> are the two ways a call does not
  return a plan.
\<close>

datatype error = DCheckFailed | StatusError string

text \<open>
  The \<^verbatim>\<open>Expand\<close> object with the match context it points to. Two collaborators are
  parameters, since their code is elsewhere: the name a new node's output variable
  gets from the query context, and \<^verbatim>\<open>MatchSolver::appendFetchVertexPlan\<close>, which
  receives the node filter, the space, the released initial expression, the input
  variable, the subplan it extends and the pool, and returns a status.
\<close>

record Expand = EdgeCtx +
  inputVar :: string
  dependency :: NodeRef
  newVarName :: "Kind \<Rightarrow> nat \<Rightarrow> string"
  appendFetchVertexPlan ::
    "Expression option \<Rightarrow> GraphSpaceID \<Rightarrow> Expression option \<Rightarrow> string \<Rightarrow> SubPlan
       \<Rightarrow> PlanNode list \<Rightarrow> error + SubPlan \<times> PlanNode list"

text \<open>
  What the calls change: the object pool of the query context and the member
  \<^verbatim>\<open>initialExpr_\<close>, a unique pointer that \<^verbatim>\<open>release()\<close> empties.
\<close>

record ExpandState =
  objPool :: "PlanNode list"
  initialExpr :: "Expression option"

text \<open>
  Modelled from the spec: the constructor of a plan node (in \<^verbatim>\<open>PlanNode.h\<close>, not at
  hand). It adds the node to the pool and returns its reference; the node has a new
  output variable and no column names until \<^verbatim>\<open>setColNames\<close> is called.
\<close>

definition makeNode ::
  "Expand \<Rightarrow> Kind \<Rightarrow> NodeRef list \<Rightarrow> NodeDetail \<Rightarrow> ExpandState \<Rightarrow> NodeRef \<times> ExpandState" where
  "makeNode ex k deps d s =
     (length (objPool s),
      s\<lparr>objPool := objPool s @
          [\<lparr>kind = k, outputVar = newVarName ex k (length (objPool s)), colNames = [],
            dependencies = deps, detail = d\<rparr>]\<rparr>)"

definition node :: "ExpandState \<Rightarrow> NodeRef \<Rightarrow> PlanNode" where
  "node s r = objPool s ! r"

definition setColNames :: "NodeRef \<Rightarrow> string list \<Rightarrow> ExpandState \<Rightarrow> ExpandState" where
  "setColNames r cols s = s\<lparr>objPool := (objPool s)[r := (node s r)\<lparr>colNames := cols\<rparr>]\<rparr>"

definition setOutputVar :: "NodeRef \<Rightarrow> string \<Rightarrow> ExpandState \<Rightarrow> ExpandState" where
  "setOutputVar r var s = s\<lparr>objPool := (objPool s)[r := (node s r)\<lparr>outputVar := var\<rparr>]\<rparr>"

text \<open>\<^verbatim>\<open>initialExpr_.release()\<close>: hands the expression out and leaves the member empty.\<close>

definition releaseInitialExpr :: "ExpandState \<Rightarrow> Expression option \<times> ExpandState" where
  "releaseInitialExpr s = (initialExpr s, s\<lparr>initialExpr := None\<rparr>)"

section \<open>Helpers of other files\<close>

text \<open>\<^verbatim>\<open>ExpressionUtils::inputPropExpr\<close>: an input-property reference to a column.\<close>

definition inputPropExpr :: "string \<Rightarrow> Expression" where
  "inputPropExpr prop = InputPropertyExpression prop"

text \<open>
  Modelled from the spec: \<^verbatim>\<open>MatchSolver::extractAndDedupVidColumn\<close> is not at hand. It
  builds the frontier extraction, a projection of the vertex-id column out of the
  given input variable (by the initial expression when one is handed in) that
  depends on \<^verbatim>\<open>dep\<close>, and a dedup node over it; the dedup node becomes the root and
  the extraction node the tail of the subplan.
\<close>

definition extractAndDedupVidColumn ::
  "Expand \<Rightarrow> Expression option \<Rightarrow> NodeRef \<Rightarrow> string \<Rightarrow> ExpandState \<Rightarrow> SubPlan \<times> ExpandState" where
  "extractAndDedupVidColumn ex initial dep inVar s =
     (let (project, s1) = makeNode ex kProject [dep] (ExtractVidDetail initial inVar) s;
          s2 = setColNames project [kVid] s1;
          (dedup, s3) = makeNode ex kDedup [project] NoDetail s2;
          s4 = setColNames dedup [kVid] s3
      in (\<lparr>root = dedup, tail = project\<rparr>, s4))"

text \<open>
  Modelled from the spec: \<^verbatim>\<open>SegmentsConnector::innerJoinSegments\<close> is not at hand. It
  builds the inner-join node of two path fragments.
\<close>

definition innerJoinSegments :: "Expand \<Rightarrow> NodeRef \<Rightarrow> NodeRef \<Rightarrow> ExpandState \<Rightarrow> NodeRef \<times> ExpandState" where
  "innerJoinSegments ex left right s = makeNode ex kInnerJoin [left, right] NoDetail s"

text \<open>
  Modelled from the spec: \<^verbatim>\<open>MatchSolver::filtPathHasSameEdge\<close> is not at hand. It builds
  a filter node over its input that discards every path of the given column in which
  the same edge occurs twice; the spec gives the predicate no concrete syntax, and
  it is written here as a call of a function on the column compared with false.
\<close>

definition sameEdgeCondition :: "string \<Rightarrow> Expression" where
  "sameEdgeCondition column =
     RelationalExpression kRelEQ
       (FunctionCallExpression ''hasSameEdgeInPath'' [inputPropExpr column])
       (ConstantExpression (BoolValue False))"

definition filtPathHasSameEdge :: "Expand \<Rightarrow> NodeRef \<Rightarrow> string \<Rightarrow> ExpandState \<Rightarrow> NodeRef \<times> ExpandState" where
  "filtPathHasSameEdge ex input column s =
     (let (filterNode, s1) =
            makeNode ex kFilter [input] (FilterDetail (sameEdgeCondition column)) s
      in (filterNode, setColNames filterNode (colNames (node s1 input)) s1))"

section \<open>Rewriting label references\<close>

text \<open>
  Modelled from the spec: \<^verbatim>\<open>RewriteMatchLabelVisitor\<close> is not at hand. Given a
  substitution rule it produces the expression in which every label and every
  label-attribute reference is replaced by what the rule returns for it; every
  other leaf stays as it is. The rule may fail, and then the rewriting fails.
\<close>

type_synonym Rewriter = "Expression \<Rightarrow> error + Expression"

fun rewriteLabels :: "Rewriter \<Rightarrow> Expression \<Rightarrow> error + Expression"
  and rewriteLabelsList :: "Rewriter \<Rightarrow> Expression list \<Rightarrow> error + Expression list" where
  "rewriteLabels rw (LabelExpression l) = rw (LabelExpression l)"
| "rewriteLabels rw (LabelAttributeExpression l f) = rw (LabelAttributeExpression l f)"
| "rewriteLabels rw (ConstantExpression v) = Inr (ConstantExpression v)"
| "rewriteLabels rw VertexExpression = Inr VertexExpression"
| "rewriteLabels rw EdgeExpression = Inr EdgeExpression"
| "rewriteLabels rw (InputPropertyExpression p) = Inr (InputPropertyExpression p)"
| "rewriteLabels rw (VariablePropertyExpression v p) = Inr (VariablePropertyExpression v p)"
| "rewriteLabels rw (AttributeExpression a b) =
     (case rewriteLabels rw a of Inl e \<Rightarrow> Inl e
      | Inr a' \<Rightarrow> (case rewriteLabels rw b of Inl e \<Rightarrow> Inl e
                   | Inr b' \<Rightarrow> Inr (AttributeExpression a' b')))"
| "rewriteLabels rw (RelationalExpression k a b) =
     (case rewriteLabels rw a of Inl e \<Rightarrow> Inl e
      | Inr a' \<Rightarrow> (case rewriteLabels rw b of Inl e \<Rightarrow> Inl e
                   | Inr b' \<Rightarrow> Inr (RelationalExpression k a' b')))"
| "rewriteLabels rw (LogicalExpression k a b) =
     (case rewriteLabels rw a of Inl e \<Rightarrow> Inl e
      | Inr a' \<Rightarrow> (case rewriteLabels rw b of Inl e \<Rightarrow> Inl e
                   | Inr b' \<Rightarrow> Inr (LogicalExpression k a' b')))"
| "rewriteLabels rw (ArithmeticExpression k a b) =
     (case rewriteLabels rw a of Inl e \<Rightarrow> Inl e
      | Inr a' \<Rightarrow> (case rewriteLabels rw b of Inl e \<Rightarrow> Inl e
                   | Inr b' \<Rightarrow> Inr (ArithmeticExpression k a' b')))"
| "rewriteLabels rw (UnaryExpression k a) =
     (case rewriteLabels rw a of Inl e \<Rightarrow> Inl e | Inr a' \<Rightarrow> Inr (UnaryExpression k a'))"
| "rewriteLabels rw (PathBuildExpression es) =
     (case rewriteLabelsList rw es of Inl e \<Rightarrow> Inl e | Inr es' \<Rightarrow> Inr (PathBuildExpression es'))"
| "rewriteLabels rw (FunctionCallExpression f es) =
     (case rewriteLabelsList rw es of Inl e \<Rightarrow> Inl e
      | Inr es' \<Rightarrow> Inr (FunctionCallExpression f es'))"
| "rewriteLabelsList rw [] = Inr []"
| "rewriteLabelsList rw (x # xs) =
     (case rewriteLabels rw x of Inl e \<Rightarrow> Inl e
      | Inr x' \<Rightarrow> (case rewriteLabelsList rw xs of Inl e \<Rightarrow> Inl e | Inr xs' \<Rightarrow> Inr (x' # xs')))"

text \<open>
  The rule \<^verbatim>\<open>expandStep\<close> gives the visitor for the vertex filter (lines 166 to 177):
  the \<^verbatim>\<open>DCHECK\<close> on the kind, an attribute of the vertex for a label attribute (the
  cast to \<^verbatim>\<open>LabelAttributeExpression\<close> and a clone of its right side), the vertex
  for a label. A cast of an expression of another class has no defined result and
  is the same error as the failed check.
\<close>

definition vertexRewriter :: Rewriter where
  "vertexRewriter expr =
     (if \<not> (exprKind expr = kLabelAttribute \<or> exprKind expr = kLabel) then Inl DCheckFailed
      else if exprKind expr = kLabelAttribute then
        (case expr of
           LabelAttributeExpression l f \<Rightarrow>
             Inr (AttributeExpression VertexExpression (ConstantExpression f))
         | _ \<Rightarrow> Inl DCheckFailed)
      else Inr VertexExpression)"

text \<open>The rule for the edge filter (lines 185 to 189): only label attributes pass the check.\<close>

definition edgeRewriter :: Rewriter where
  "edgeRewriter expr =
     (if exprKind expr \<noteq> kLabelAttribute then Inl DCheckFailed
      else (case expr of
              LabelAttributeExpression l f \<Rightarrow>
                Inr (AttributeExpression EdgeExpression (ConstantExpression f))
            | _ \<Rightarrow> Inl DCheckFailed))"

section \<open>The functions of Expand.cpp\<close>

definition genVertexProps :: "VertexProp list" where
  "genVertexProps = []"

definition mergePathColumnsExpr :: "string \<Rightarrow> string \<Rightarrow> Expression" where
  "mergePathColumnsExpr lcol rcol = PathBuildExpression [inputPropExpr lcol, inputPropExpr rcol]"

definition buildPathExpr :: Expression where
  "buildPathExpr = PathBuildExpression [VertexExpression, EdgeExpression]"

text \<open>
  \<^verbatim>\<open>Expand::passThrough\<close>: a pass-through node over \<^verbatim>\<open>root\<close> that takes over the output
  variable and the column names of \<^verbatim>\<open>root\<close>.
\<close>

definition passThrough :: "Expand \<Rightarrow> NodeRef \<Rightarrow> ExpandState \<Rightarrow> NodeRef \<times> ExpandState" where
  "passThrough ex r s =
     (let (pt, s1) = makeNode ex kPassThrough [r] NoDetail s;
          s2 = setOutputVar pt (outputVar (node s1 r)) s1;
          s3 = setColNames pt (colNames (node s2 r)) s2
      in (pt, s3))"

text \<open>
  A filter node over \<^verbatim>\<open>root\<close> with the column names of \<^verbatim>\<open>root\<close>: the three lines
  \<^verbatim>\<open>Filter::make\<close>, \<^verbatim>\<open>setColNames(root->colNames())\<close>, \<^verbatim>\<open>root = filterNode\<close> that end both
  filter blocks of \<^verbatim>\<open>expandStep\<close>.
\<close>

definition attachFilter :: "Expand \<Rightarrow> NodeRef \<Rightarrow> Expression \<Rightarrow> ExpandState \<Rightarrow> NodeRef \<times> ExpandState" where
  "attachFilter ex r cond s =
     (let (filterNode, s1) = makeNode ex kFilter [r] (FilterDetail cond) s
      in (filterNode, setColNames filterNode (colNames (node s1 r)) s1))"

text \<open>
  \<^verbatim>\<open>Expand::expandStep\<close>. The neighbour fetch is made with the space id and then given
  its source expression, its (empty) vertex properties, its edge properties and its
  direction by four setters; the model builds it with these values at once. Both
  fields of the subplan handed in are overwritten, so the subplan is a result.
\<close>

definition expandStep ::
  "Expand \<Rightarrow> EdgeInfo \<Rightarrow> NodeRef \<Rightarrow> string \<Rightarrow> Expression option \<Rightarrow> ExpandState
     \<Rightarrow> error + SubPlan \<times> ExpandState" where
  "expandStep ex edge dep inVar nodeFilter s =
     (let (initial, s0) = releaseInitialExpr s;
          (curr, s1) = extractAndDedupVidColumn ex initial dep inVar s0;
          (gn, s2) = makeNode ex kGetNeighbors [root curr]
                       (GetNeighborsDetail (space_id ex) (inputPropExpr kVid) genVertexProps
                          (genEdgeProps ex edge) (direction edge)) s1
      in case (case nodeFilter of
                 None \<Rightarrow> Inr (gn, s2)
               | Some nf \<Rightarrow>
                   (case rewriteLabels vertexRewriter nf of
                      Inl e \<Rightarrow> Inl e
                    | Inr nf' \<Rightarrow> Inr (attachFilter ex gn nf' s2))) of
           Inl e \<Rightarrow> Inl e
         | Inr (root1, s3) \<Rightarrow>
             (case (case filter_e edge of
                      None \<Rightarrow> Inr (root1, s3)
                    | Some ef \<Rightarrow>
                        (case rewriteLabels edgeRewriter ef of
                           Inl e \<Rightarrow> Inl e
                         | Inr ef' \<Rightarrow> Inr (attachFilter ex root1 ef' s3))) of
                Inl e \<Rightarrow> Inl e
              | Inr (root2, s4) \<Rightarrow>
                  (let listColumns = [\<lparr>expr_y = buildPathExpr, alias_y = Some kPathStr\<rparr>];
                       (project, s5) = makeNode ex kProject [root2] (ProjectDetail listColumns) s4;
                       s6 = setColNames project [kPathStr] s5
                   in Inr (\<lparr>root = project, tail = tail curr\<rparr>, s6))))"

text \<open>
  \<^verbatim>\<open>Expand::collectData\<close>; it returns the new accumulator (written through the
  pointer \<^verbatim>\<open>passThrough\<close>) and the updated subplan, and its status is always OK.
\<close>

definition collectData ::
  "Expand \<Rightarrow> NodeRef \<Rightarrow> NodeRef \<Rightarrow> NodeRef \<Rightarrow> SubPlan \<Rightarrow> ExpandState
     \<Rightarrow> NodeRef \<times> SubPlan \<times> ExpandState" where
  "collectData ex joinLeft joinRight inUnionNode plan s =
     (let (join, s1) = innerJoinSegments ex joinLeft joinRight s;
          lpath = kPathStr @ ''_'' @ ''0'';
          rpath = kPathStr @ ''_'' @ ''1'';
          s2 = setColNames join [lpath, rpath] s1;
          plan1 = plan\<lparr>tail := join\<rparr>;
          columns = [\<lparr>expr_y = mergePathColumnsExpr lpath rpath, alias_y = None\<rparr>];
          (project, s3) = makeNode ex kProject [join] (ProjectDetail columns) s2;
          s4 = setColNames project [kPathStr] s3;
          (filterNode, s5) = filtPathHasSameEdge ex project kPathStr s4;
          (pt, s6) = makeNode ex kPassThrough [filterNode] NoDetail s5;
          s7 = setOutputVar pt (outputVar (node s6 filterNode)) s6;
          s8 = setColNames pt [kPathStr] s7;
          (uNode, s9) = makeNode ex kUnion [pt, inUnionNode] NoDetail s8;
          s10 = setColNames uNode [kPathStr] s9
      in (pt, plan1\<lparr>root := uNode\<rparr>, s10))"

text \<open>\<^verbatim>\<open>Expand::filterDatasetByPathLength\<close>; its status is always OK.\<close>

definition filterDatasetByPathLength ::
  "Expand \<Rightarrow> EdgeInfo \<Rightarrow> NodeRef \<Rightarrow> SubPlan \<Rightarrow> ExpandState \<Rightarrow> SubPlan \<times> ExpandState" where
  "filterDatasetByPathLength ex edge input plan s =
     (let pathExpr = inputPropExpr kPathStr;
          edgeExpr = FunctionCallExpression ''length'' [pathExpr];
          minHop = (case range_e edge of None \<Rightarrow> 1 | Some r \<Rightarrow> min_r r);
          minHopExpr = ConstantExpression (IntValue minHop);
          expr = RelationalExpression kRelGE edgeExpr minHopExpr;
          (filterNode, s1) = makeNode ex kFilter [input] (FilterDetail expr) s;
          s2 = setColNames filterNode (colNames (node s1 input)) s1
      in (plan\<lparr>root := filterNode\<rparr>, s2))"

text \<open>
  \<^verbatim>\<open>Expand::expandSteps\<close>, in three parts. The first is the code before the loop
  (lines 97 to 126): it yields the start index, the subplan and the state the loop
  starts from, the accumulator being the root of that subplan.
\<close>

definition minHopOf :: "EdgeInfo \<Rightarrow> int" where
  "minHopOf edge = (case range_e edge of None \<Rightarrow> 1 | Some r \<Rightarrow> min_r r)"

definition maxHopOf :: "EdgeInfo \<Rightarrow> int" where
  "maxHopOf edge = (case range_e edge of None \<Rightarrow> 1 | Some r \<Rightarrow> max_r r)"

definition expandStart ::
  "Expand \<Rightarrow> NodeInfo \<Rightarrow> EdgeInfo \<Rightarrow> SubPlan \<Rightarrow> ExpandState
     \<Rightarrow> error + int \<times> SubPlan \<times> ExpandState" where
  "expandStart ex nd edge plan s =
     (let minHop = minHopOf edge; maxHop = maxHopOf edge in
      if minHop = 0 then
        (let (initial, s0) = releaseInitialExpr s in
         case appendFetchVertexPlan ex (filter_n nd) (space_id ex) initial (inputVar ex) plan
                (objPool s0) of
           Inl e \<Rightarrow> Inl e
         | Inr (subplan, pool) \<Rightarrow>
             (let s1 = s0\<lparr>objPool := pool\<rparr> in
              if maxHop > 0 then
                (let (pt, s2) = passThrough ex (root subplan) s1
                 in Inr (0, subplan\<lparr>root := pt\<rparr>, s2))
              else Inr (0, subplan, s1)))
      else
        (case expandStep ex edge (dependency ex) (inputVar ex) (filter_n nd) s of
           Inl e \<Rightarrow> Inl e
         | Inr (subplan, s1) \<Rightarrow>
             (let (pt, s2) = passThrough ex (root subplan) s1
              in Inr (1, subplan\<lparr>root := pt\<rparr>, s2))))"

text \<open>The body of the loop (lines 128 to 133), on the accumulator, the subplan and the state.\<close>

definition expandLoopBody ::
  "Expand \<Rightarrow> EdgeInfo \<Rightarrow> NodeRef \<times> SubPlan \<times> ExpandState
     \<Rightarrow> error + NodeRef \<times> SubPlan \<times> ExpandState" where
  "expandLoopBody ex edge st =
     (case st of (pt, subplan, s) \<Rightarrow>
        (case expandStep ex edge pt (outputVar (node s pt)) None s of
           Inl e \<Rightarrow> Inl e
         | Inr (curr', s1) \<Rightarrow>
             (let rNode = root subplan in
              if kind (node s1 rNode) = kUnion \<or> kind (node s1 rNode) = kPassThrough
              then Inr (collectData ex pt (root curr') rNode subplan s1)
              else Inl DCheckFailed)))"

text \<open>The loop \<^verbatim>\<open>for (; startIndex < maxHop; ++startIndex)\<close>.\<close>

function expandLoop ::
  "Expand \<Rightarrow> EdgeInfo \<Rightarrow> int \<Rightarrow> int \<Rightarrow> NodeRef \<times> SubPlan \<times> ExpandState
     \<Rightarrow> error + NodeRef \<times> SubPlan \<times> ExpandState" where
  "expandLoop ex edge startIndex maxHop st =
     (if startIndex < maxHop then
        (case expandLoopBody ex edge st of
           Inl e \<Rightarrow> Inl e
         | Inr st' \<Rightarrow> expandLoop ex edge (startIndex + 1) maxHop st')
      else Inr st)"
  by pat_completeness auto
termination
  by (relation "measure (\<lambda>(ex, edge, startIndex, maxHop, st). nat (maxHop - startIndex))") auto

declare expandLoop.simps [simp del]

definition expandSteps ::
  "Expand \<Rightarrow> NodeInfo \<Rightarrow> EdgeInfo \<Rightarrow> SubPlan \<Rightarrow> ExpandState \<Rightarrow> error + SubPlan \<times> ExpandState" where
  "expandSteps ex nd edge plan s =
     (case expandStart ex nd edge plan s of
        Inl e \<Rightarrow> Inl e
      | Inr (startIndex, subplan, s1) \<Rightarrow>
          (case expandLoop ex edge startIndex (maxHopOf edge) (root subplan, subplan, s1) of
             Inl e \<Rightarrow> Inl e
           | Inr (pt, subplan', s2) \<Rightarrow> Inr (plan\<lparr>root := root subplan'\<rparr>, s2)))"

definition doExpand ::
  "Expand \<Rightarrow> NodeInfo \<Rightarrow> EdgeInfo \<Rightarrow> SubPlan \<Rightarrow> ExpandState \<Rightarrow> error + SubPlan \<times> ExpandState" where
  "doExpand ex nd edge plan s =
     (case expandSteps ex nd edge plan s of
        Inl e \<Rightarrow> Inl e
      | Inr (plan1, s1) \<Rightarrow> Inr (filterDatasetByPathLength ex edge (root plan1) plan1 s1))"

section \<open>Notions the properties are stated with\<close>

text \<open>
  The substitution the spec describes for a filter: every label-attribute reference
  becomes an attribute reference on the target (the vertex or the edge) with the same
  field name, and every bare label becomes the target itself. It is written from the
  spec's words, to be compared with what \<^verbatim>\<open>expandStep\<close> attaches.
\<close>

fun substLabels :: "Expression \<Rightarrow> Expression \<Rightarrow> Expression" where
  "substLabels tgt (LabelExpression l) = tgt"
| "substLabels tgt (LabelAttributeExpression l f) = AttributeExpression tgt (ConstantExpression f)"
| "substLabels tgt (ConstantExpression v) = ConstantExpression v"
| "substLabels tgt VertexExpression = VertexExpression"
| "substLabels tgt EdgeExpression = EdgeExpression"
| "substLabels tgt (InputPropertyExpression p) = InputPropertyExpression p"
| "substLabels tgt (VariablePropertyExpression v p) = VariablePropertyExpression v p"
| "substLabels tgt (AttributeExpression a b) = AttributeExpression (substLabels tgt a) (substLabels tgt b)"
| "substLabels tgt (RelationalExpression k a b) = RelationalExpression k (substLabels tgt a) (substLabels tgt b)"
| "substLabels tgt (LogicalExpression k a b) = LogicalExpression k (substLabels tgt a) (substLabels tgt b)"
| "substLabels tgt (ArithmeticExpression k a b) = ArithmeticExpression k (substLabels tgt a) (substLabels tgt b)"
| "substLabels tgt (UnaryExpression k a) = UnaryExpression k (substLabels tgt a)"
| "substLabels tgt (PathBuildExpression es) = PathBuildExpression (map (substLabels tgt) es)"
| "substLabels tgt (FunctionCallExpression f es) = FunctionCallExpression f (map (substLabels tgt) es)"

text \<open>Whether a bare label, or a label attribute, occurs in an expression.\<close>

fun hasLabel :: "Expression \<Rightarrow> bool" where
  "hasLabel (LabelExpression l) = True"
| "hasLabel (LabelAttributeExpression l f) = False"
| "hasLabel (ConstantExpression v) = False"
| "hasLabel VertexExpression = False"
| "hasLabel EdgeExpression = False"
| "hasLabel (InputPropertyExpression p) = False"
| "hasLabel (VariablePropertyExpression v p) = False"
| "hasLabel (AttributeExpression a b) = (hasLabel a \<or> hasLabel b)"
| "hasLabel (RelationalExpression k a b) = (hasLabel a \<or> hasLabel b)"
| "hasLabel (LogicalExpression k a b) = (hasLabel a \<or> hasLabel b)"
| "hasLabel (ArithmeticExpression k a b) = (hasLabel a \<or> hasLabel b)"
| "hasLabel (UnaryExpression k a) = hasLabel a"
| "hasLabel (PathBuildExpression es) = list_ex hasLabel es"
| "hasLabel (FunctionCallExpression f es) = list_ex hasLabel es"

fun hasLabelAttribute :: "Expression \<Rightarrow> bool" where
  "hasLabelAttribute (LabelExpression l) = False"
| "hasLabelAttribute (LabelAttributeExpression l f) = True"
| "hasLabelAttribute (ConstantExpression v) = False"
| "hasLabelAttribute VertexExpression = False"
| "hasLabelAttribute EdgeExpression = False"
| "hasLabelAttribute (InputPropertyExpression p) = False"
| "hasLabelAttribute (VariablePropertyExpression v p) = False"
| "hasLabelAttribute (AttributeExpression a b) = (hasLabelAttribute a \<or> hasLabelAttribute b)"
| "hasLabelAttribute (RelationalExpression k a b) = (hasLabelAttribute a \<or> hasLabelAttribute b)"
| "hasLabelAttribute (LogicalExpression k a b) = (hasLabelAttribute a \<or> hasLabelAttribute b)"
| "hasLabelAttribute (ArithmeticExpression k a b) = (hasLabelAttribute a \<or> hasLabelAttribute b)"
| "hasLabelAttribute (UnaryExpression k a) = hasLabelAttribute a"
| "hasLabelAttribute (PathBuildExpression es) = list_ex hasLabelAttribute es"
| "hasLabelAttribute (FunctionCallExpression f es) = list_ex hasLabelAttribute es"

text \<open>The precondition of the edge filter: it holds no bare label.\<close>

definition edgeFilterOk :: "EdgeInfo \<Rightarrow> bool" where
  "edgeFilterOk edge = (case filter_e edge of None \<Rightarrow> True | Some f \<Rightarrow> \<not> hasLabel f)"

text \<open>The number of nodes of a kind in a list of nodes.\<close>

definition countKind :: "Kind \<Rightarrow> PlanNode list \<Rightarrow> nat" where
  "countKind k ns = length (filter (\<lambda>n. kind n = k) ns)"

text \<open>Running a fallible body a given number of times, stopping at the first error.\<close>

fun repeatBody :: "nat \<Rightarrow> ('a \<Rightarrow> error + 'a) \<Rightarrow> 'a \<Rightarrow> error + 'a" where
  "repeatBody 0 f x = Inr x"
| "repeatBody (Suc n) f x = (case f x of Inl e \<Rightarrow> Inl e | Inr y \<Rightarrow> repeatBody n f y)"

text \<open>The filter node that \<^verbatim>\<open>expandStep\<close> puts over the neighbour fetch, which has no column names.\<close>

definition fltNode :: "Expand \<Rightarrow> nat \<Rightarrow> nat \<Rightarrow> Expression \<Rightarrow> PlanNode" where
  "fltNode ex i d c =
     \<lparr>kind = kFilter, outputVar = newVarName ex kFilter i, colNames = [],
      dependencies = [d], detail = FilterDetail c\<rparr>"

section \<open>Example inputs\<close>

text \<open>
  A pool that holds one start node, an \<^verbatim>\<open>Expand\<close> object over it, and the edges of the
  scenarios of the spec: both directions of one edge type without a hop range, one
  to two hops outwards, and zero to two hops with an edge filter. The catalog of the
  example knows one field of edge type 7; its fetch-vertex collaborator adds one
  projection over the root of the plan it is given.
\<close>

definition exampleState :: ExpandState where
  "exampleState =
     \<lparr>objPool = [\<lparr>kind = kProject, outputVar = ''start'', colNames = [kVid],
                   dependencies = [], detail = NoDetail\<rparr>],
      initialExpr = Some (InputPropertyExpression kVid)\<rparr>"

definition examplePlan :: SubPlan where
  "examplePlan = \<lparr>root = 0, tail = 0\<rparr>"

definition exampleFetchVertex ::
  "Expression option \<Rightarrow> GraphSpaceID \<Rightarrow> Expression option \<Rightarrow> string \<Rightarrow> SubPlan
     \<Rightarrow> PlanNode list \<Rightarrow> error + SubPlan \<times> PlanNode list" where
  "exampleFetchVertex nodeFilter sp initial inVar plan pool =
     Inr (plan\<lparr>root := length pool\<rparr>,
          pool @ [\<lparr>kind = kProject, outputVar = ''vertices'', colNames = [kPathStr],
                    dependencies = [root plan],
                    detail = ProjectDetail
                      [\<lparr>expr_y = PathBuildExpression [VertexExpression], alias_y = None\<rparr>]\<rparr>])"

definition exampleExpand :: Expand where
  "exampleExpand =
     \<lparr>space_id = 1,
      getEdgeSchema = (\<lambda>sp t. if t = 7 then [''since''] else []),
      reversely = False,
      inputVar = ''start'',
      dependency = 0,
      newVarName = (\<lambda>k i. ''anon''),
      appendFetchVertexPlan = exampleFetchVertex\<rparr>"

definition exampleNode :: NodeInfo where
  "exampleNode =
     \<lparr>filter_n = Some (RelationalExpression kRelGT
                        (LabelAttributeExpression ''v'' (StrValue ''age''))
                        (ConstantExpression (IntValue 18)))\<rparr>"

definition exampleEdgeBoth :: EdgeInfo where
  "exampleEdgeBoth = \<lparr>direction = BOTH, edgeTypes = [7], range_e = None, filter_e = None\<rparr>"

definition exampleEdgeOut :: EdgeInfo where
  "exampleEdgeOut =
     \<lparr>direction = OUT_EDGE, edgeTypes = [7],
      range_e = Some \<lparr>min_r = 1, max_r = 2\<rparr>, filter_e = None\<rparr>"

definition exampleEdgeZero :: EdgeInfo where
  "exampleEdgeZero =
     \<lparr>direction = IN_EDGE, edgeTypes = [7],
      range_e = Some \<lparr>min_r = 0, max_r = 2\<rparr>,
      filter_e = Some (RelationalExpression kRelEQ
                        (LabelAttributeExpression ''e'' (StrValue ''since''))
                        (ConstantExpression (IntValue 2020)))\<rparr>"

definition exampleEdgeZeroOnly :: EdgeInfo where
  "exampleEdgeZeroOnly =
     \<lparr>direction = IN_EDGE, edgeTypes = [7],
      range_e = Some \<lparr>min_r = 0, max_r = 0\<rparr>, filter_e = None\<rparr>"

section \<open>Properties of the edge property specifications\<close>

lemma foldl_snoc_map: "foldl (\<lambda>ps i. ps @ [f i]) acc is = acc @ map f is"
  by (induction "is" arbitrary: acc) simp_all

lemma mkEdgeProp_props:
  "mkEdgeProp t fs = \<lparr>type_e = t, props = [kSrc, kType, kRank, kDst] @ fs\<rparr>"
  by (simp add: mkEdgeProp_def foldl_snoc_map getNumFields_def getFieldName_def map_nth)

lemma foldl_genEdgePropsStep:
  "foldl (genEdgePropsStep ex edge) acc ts =
     acc @ concat (map (\<lambda>t. genEdgePropsStep ex edge [] t) ts)"
proof (induction ts arbitrary: acc)
  case Nil
  show ?case by simp
next
  case (Cons t ts)
  have "genEdgePropsStep ex edge acc t = acc @ genEdgePropsStep ex edge [] t"
    by (simp add: genEdgePropsStep_def Let_def split: Direction.split)
  then show ?case by (simp add: Cons.IH)
qed

lemma genEdgeProps_concat:
  "genEdgeProps ex edge = concat (map (\<lambda>t. genEdgePropsStep ex edge [] t) (edgeTypes edge))"
  by (simp add: genEdgeProps_def foldl_genEdgePropsStep)

lemma concat_map_single: "concat (map (\<lambda>t. [f t]) ts) = map f ts"
  by (induction ts) simp_all

lemma length_concat_map_pair: "length (concat (map (\<lambda>t. [f t, g t]) ts)) = 2 * length ts"
  by (induction ts) simp_all

lemma sint_neg_edgeType:
  fixes t :: EdgeType
  assumes "sint t \<noteq> - 2147483648"
  shows "sint (- t) = - sint t"
proof -
  have lo: "- 2147483648 \<le> sint t" using sint_ge[of t] by simp
  have hi: "sint t < 2147483648" using sint_lt[of t] by simp
  have "sint (- t) = signed_take_bit 31 (- sint t)"
    by (simp add: sint_word_minus)
  also have "\<dots> = - sint t"
    using lo hi assms by (intro signed_take_bit_int_eq_self) simp_all
  finally show ?thesis .
qed

lemma genEdgeProps_out_eq:
  "genEdgeProps ex (edge\<lparr>direction := OUT_EDGE\<rparr>) =
     map (\<lambda>t. \<lparr>type_e = (if reversely ex then - t else t),
                props = [kSrc, kType, kRank, kDst] @ getEdgeSchema ex (space_id ex) t\<rparr>)
       (edgeTypes edge)"
  by (simp add: genEdgeProps_concat genEdgePropsStep_def Let_def concat_map_single
        mkEdgeProp_props)

lemma genEdgeProps_in_eq:
  "genEdgeProps ex (edge\<lparr>direction := IN_EDGE\<rparr>) =
     map (\<lambda>t. \<lparr>type_e = (if \<not> reversely ex then - t else t),
                props = [kSrc, kType, kRank, kDst] @ getEdgeSchema ex (space_id ex) t\<rparr>)
       (edgeTypes edge)"
  by (simp add: genEdgeProps_concat genEdgePropsStep_def Let_def concat_map_single
        mkEdgeProp_props)

lemma genEdgeProps_both_eq:
  "genEdgeProps ex (edge\<lparr>direction := BOTH\<rparr>) =
     concat (map (\<lambda>t.
       [\<lparr>type_e = - t,
         props = [kSrc, kType, kRank, kDst] @ getEdgeSchema ex (space_id ex) t\<rparr>,
        \<lparr>type_e = t,
         props = [kSrc, kType, kRank, kDst] @ getEdgeSchema ex (space_id ex) t\<rparr>])
       (edgeTypes edge))"
  by (simp add: genEdgeProps_concat genEdgePropsStep_def Let_def mkEdgeProp_props)

lemma map_sint_neg:
  fixes ts :: "EdgeType list"
  assumes "\<forall>t\<in>set ts. sint t \<noteq> - 2147483648"
  shows "map (\<lambda>t. sint (- t)) ts = map (\<lambda>t. - sint t) ts"
  using assms by (simp add: sint_neg_edgeType)

lemma both_sint_neg:
  fixes ts :: "EdgeType list"
  assumes "\<forall>t\<in>set ts. sint t \<noteq> - 2147483648"
  shows "map (\<lambda>p. (sint (type_e p), props p))
           (concat (map (\<lambda>t. [\<lparr>type_e = - t, props = c t\<rparr>, \<lparr>type_e = t, props = c t\<rparr>]) ts))
         = concat (map (\<lambda>t. [(- sint t, c t), (sint t, c t)]) ts)"
  using assms by (induction ts) (simp_all add: sint_neg_edgeType)

text \<open>
  C1. In \<^verbatim>\<open>genEdgeProps\<close>, for every edge type of the edge: with direction OUT the
  property specification has the type id itself when \<^verbatim>\<open>reversely_\<close> is false, and with
  direction IN when \<^verbatim>\<open>reversely_\<close> is true; with direction BOTH the emitted
  specifications do not depend on \<^verbatim>\<open>reversely_\<close>. When no edge type is the least
  32-bit value, the specification has the negated type id with direction OUT when
  \<^verbatim>\<open>reversely_\<close> is true and with direction IN when \<^verbatim>\<open>reversely_\<close> is false.
\<close>

theorem genEdgeProps_direction:
  "map type_e (genEdgeProps (ex\<lparr>reversely := False\<rparr>) (edge\<lparr>direction := OUT_EDGE\<rparr>))
     = edgeTypes edge
   \<and> map type_e (genEdgeProps (ex\<lparr>reversely := True\<rparr>) (edge\<lparr>direction := IN_EDGE\<rparr>))
     = edgeTypes edge
   \<and> genEdgeProps (ex\<lparr>reversely := True\<rparr>) (edge\<lparr>direction := BOTH\<rparr>)
     = genEdgeProps (ex\<lparr>reversely := False\<rparr>) (edge\<lparr>direction := BOTH\<rparr>)
   \<and> ((\<forall>t\<in>set (edgeTypes edge). sint t \<noteq> - 2147483648) \<longrightarrow>
         map (\<lambda>p. sint (type_e p))
           (genEdgeProps (ex\<lparr>reversely := True\<rparr>) (edge\<lparr>direction := OUT_EDGE\<rparr>))
           = map (\<lambda>t. - sint t) (edgeTypes edge)
       \<and> map (\<lambda>p. sint (type_e p))
           (genEdgeProps (ex\<lparr>reversely := False\<rparr>) (edge\<lparr>direction := IN_EDGE\<rparr>))
           = map (\<lambda>t. - sint t) (edgeTypes edge))"
  by (simp add: genEdgeProps_out_eq genEdgeProps_in_eq genEdgeProps_both_eq comp_def
        map_sint_neg)

theorem genEdgeProps_direction_witness:
  "sint (7 :: EdgeType) \<noteq> - 2147483648
   \<and> map (\<lambda>p. sint (type_e p))
        (genEdgeProps (exampleExpand\<lparr>reversely := True\<rparr>)
           (exampleEdgeOut\<lparr>direction := OUT_EDGE\<rparr>)) = [- 7]
   \<and> map (\<lambda>p. sint (type_e p))
        (genEdgeProps (exampleExpand\<lparr>reversely := False\<rparr>)
           (exampleEdgeOut\<lparr>direction := IN_EDGE\<rparr>)) = [- 7]
   \<and> map type_e
        (genEdgeProps (exampleExpand\<lparr>reversely := False\<rparr>)
           (exampleEdgeOut\<lparr>direction := OUT_EDGE\<rparr>)) = [7]"
  using genEdgeProps_direction[of exampleExpand exampleEdgeOut]
  by (simp add: exampleEdgeOut_def)

text \<open>
  C3. With direction BOTH and \<open>n\<close> edge types \<^verbatim>\<open>genEdgeProps\<close> returns exactly \<open>2n\<close>
  specifications, two for each type in order, each carrying the columns source,
  type, rank, destination followed by every schema field of that edge type; when no
  edge type is the least 32-bit value, the first of the two has the negated type id
  and the second the type id itself. With direction OUT or IN it returns exactly
  \<open>n\<close> specifications.
\<close>

theorem genEdgeProps_both_count:
  "length (genEdgeProps ex (edge\<lparr>direction := BOTH\<rparr>)) = 2 * length (edgeTypes edge)
   \<and> length (genEdgeProps ex (edge\<lparr>direction := OUT_EDGE\<rparr>)) = length (edgeTypes edge)
   \<and> length (genEdgeProps ex (edge\<lparr>direction := IN_EDGE\<rparr>)) = length (edgeTypes edge)
   \<and> map props (genEdgeProps ex (edge\<lparr>direction := BOTH\<rparr>)) =
       concat (map (\<lambda>t.
         [[kSrc, kType, kRank, kDst] @ getEdgeSchema ex (space_id ex) t,
          [kSrc, kType, kRank, kDst] @ getEdgeSchema ex (space_id ex) t])
         (edgeTypes edge))
   \<and> ((\<forall>t\<in>set (edgeTypes edge). sint t \<noteq> - 2147483648) \<longrightarrow>
         map (\<lambda>p. (sint (type_e p), props p)) (genEdgeProps ex (edge\<lparr>direction := BOTH\<rparr>)) =
           concat (map (\<lambda>t.
             [(- sint t, [kSrc, kType, kRank, kDst] @ getEdgeSchema ex (space_id ex) t),
              (sint t, [kSrc, kType, kRank, kDst] @ getEdgeSchema ex (space_id ex) t)])
             (edgeTypes edge)))"
proof (intro conjI impI)
  show "length (genEdgeProps ex (edge\<lparr>direction := BOTH\<rparr>)) = 2 * length (edgeTypes edge)"
    by (simp add: genEdgeProps_both_eq length_concat_map_pair)
  show "length (genEdgeProps ex (edge\<lparr>direction := OUT_EDGE\<rparr>)) = length (edgeTypes edge)"
    by (simp add: genEdgeProps_out_eq)
  show "length (genEdgeProps ex (edge\<lparr>direction := IN_EDGE\<rparr>)) = length (edgeTypes edge)"
    by (simp add: genEdgeProps_in_eq)
  show "map props (genEdgeProps ex (edge\<lparr>direction := BOTH\<rparr>)) =
       concat (map (\<lambda>t.
         [[kSrc, kType, kRank, kDst] @ getEdgeSchema ex (space_id ex) t,
          [kSrc, kType, kRank, kDst] @ getEdgeSchema ex (space_id ex) t])
         (edgeTypes edge))"
    by (simp add: genEdgeProps_both_eq map_concat comp_def)
  assume "\<forall>t\<in>set (edgeTypes edge). sint t \<noteq> - 2147483648"
  then show "map (\<lambda>p. (sint (type_e p), props p)) (genEdgeProps ex (edge\<lparr>direction := BOTH\<rparr>)) =
           concat (map (\<lambda>t.
             [(- sint t, [kSrc, kType, kRank, kDst] @ getEdgeSchema ex (space_id ex) t),
              (sint t, [kSrc, kType, kRank, kDst] @ getEdgeSchema ex (space_id ex) t)])
             (edgeTypes edge))"
    unfolding genEdgeProps_both_eq by (rule both_sint_neg)
qed

theorem genEdgeProps_both_count_witness:
  "sint (7 :: EdgeType) \<noteq> - 2147483648
   \<and> map (\<lambda>p. (sint (type_e p), props p))
        (genEdgeProps exampleExpand (exampleEdgeBoth\<lparr>direction := BOTH\<rparr>)) =
       [(- 7, [kSrc, kType, kRank, kDst, ''since'']), (7, [kSrc, kType, kRank, kDst, ''since''])]
   \<and> length (genEdgeProps exampleExpand (exampleEdgeBoth\<lparr>direction := BOTH\<rparr>)) = 2"
  using genEdgeProps_both_count[of exampleExpand exampleEdgeBoth]
  by (simp add: exampleEdgeBoth_def exampleExpand_def)

section \<open>Properties of the plan construction\<close>

lemmas node_defs = makeNode_def node_def setColNames_def setOutputVar_def

subsection \<open>The rewriting of labels\<close>

lemma rewrite_vertex:
  "rewriteLabels vertexRewriter e = Inr (substLabels VertexExpression e)"
  "rewriteLabelsList vertexRewriter es = Inr (map (substLabels VertexExpression) es)"
  by (induction vertexRewriter e and vertexRewriter es rule: rewriteLabels_rewriteLabelsList.induct)
     (simp_all add: vertexRewriter_def)

lemma rewrite_edge:
  "rewriteLabels edgeRewriter e =
     (if hasLabel e then Inl DCheckFailed else Inr (substLabels EdgeExpression e))"
  "rewriteLabelsList edgeRewriter es =
     (if list_ex hasLabel es then Inl DCheckFailed else Inr (map (substLabels EdgeExpression) es))"
  by (induction edgeRewriter e and edgeRewriter es rule: rewriteLabels_rewriteLabelsList.induct)
     (simp_all add: edgeRewriter_def)

lemma subst_no_label:
  "\<not> hasLabel tgt \<Longrightarrow> \<not> hasLabelAttribute tgt \<Longrightarrow>
     \<not> hasLabel (substLabels tgt e) \<and> \<not> hasLabelAttribute (substLabels tgt e)"
  by (induction tgt e rule: substLabels.induct) (simp_all add: list_ex_iff)

subsection \<open>The nodes each function adds to the pool\<close>

lemma passThrough_eq:
  "r < length (objPool s) \<Longrightarrow>
   passThrough ex r s =
     (length (objPool s),
      s\<lparr>objPool := objPool s @
         [\<lparr>kind = kPassThrough, outputVar = outputVar (objPool s ! r),
           colNames = colNames (objPool s ! r), dependencies = [r], detail = NoDetail\<rparr>]\<rparr>)"
  by (simp add: passThrough_def node_defs Let_def nth_append)

lemma passThrough_shape:
  "\<exists>nd. passThrough ex r s = (length (objPool s), s\<lparr>objPool := objPool s @ [nd]\<rparr>)
        \<and> kind nd = kPassThrough \<and> dependencies nd = [r]"
  apply (simp add: passThrough_def node_defs Let_def)
  apply (rule exI, rule conjI, rule refl)
  apply simp
  done

lemma collectData_eq:
  "collectData ex jl jr un plan s =
     (length (objPool s) + 3,
      plan\<lparr>tail := length (objPool s), root := length (objPool s) + 4\<rparr>,
      s\<lparr>objPool := objPool s @
         [\<lparr>kind = kInnerJoin, outputVar = newVarName ex kInnerJoin (length (objPool s)),
           colNames = [kPathStr @ ''_0'', kPathStr @ ''_1''], dependencies = [jl, jr], detail = NoDetail\<rparr>,
          \<lparr>kind = kProject, outputVar = newVarName ex kProject (length (objPool s) + 1),
           colNames = [kPathStr], dependencies = [length (objPool s)],
           detail = ProjectDetail [\<lparr>expr_y = PathBuildExpression
              [InputPropertyExpression (kPathStr @ ''_0''), InputPropertyExpression (kPathStr @ ''_1'')], alias_y = None\<rparr>]\<rparr>,
          \<lparr>kind = kFilter, outputVar = newVarName ex kFilter (length (objPool s) + 2),
           colNames = [kPathStr], dependencies = [length (objPool s) + 1],
           detail = FilterDetail (sameEdgeCondition kPathStr)\<rparr>,
          \<lparr>kind = kPassThrough, outputVar = newVarName ex kFilter (length (objPool s) + 2),
           colNames = [kPathStr], dependencies = [length (objPool s) + 2], detail = NoDetail\<rparr>,
          \<lparr>kind = kUnion, outputVar = newVarName ex kUnion (length (objPool s) + 4),
           colNames = [kPathStr], dependencies = [length (objPool s) + 3, un], detail = NoDetail\<rparr>]\<rparr>)"
  by (simp add: collectData_def innerJoinSegments_def filtPathHasSameEdge_def mergePathColumnsExpr_def inputPropExpr_def
       node_defs Let_def nth_append list_update_append eval_nat_numeral)

lemma expandStep_pool:
  assumes "expandStep ex edge dep iv nf s = Inr (plan, s')"
  shows "\<exists>vf ef.
     s' = s\<lparr>objPool := objPool s @
        [\<lparr>kind = kProject, outputVar = newVarName ex kProject (length (objPool s)),
           colNames = [kVid], dependencies = [dep], detail = ExtractVidDetail (initialExpr s) iv\<rparr>,
         \<lparr>kind = kDedup, outputVar = newVarName ex kDedup (length (objPool s) + 1),
           colNames = [kVid], dependencies = [length (objPool s)], detail = NoDetail\<rparr>,
         \<lparr>kind = kGetNeighbors, outputVar = newVarName ex kGetNeighbors (length (objPool s) + 2),
           colNames = [], dependencies = [length (objPool s) + 1],
           detail = GetNeighborsDetail (space_id ex) (InputPropertyExpression kVid) []
                      (genEdgeProps ex edge) (direction edge)\<rparr>]
        @ vf @ ef @
        [\<lparr>kind = kProject,
           outputVar = newVarName ex kProject (length (objPool s) + 3 + length vf + length ef),
           colNames = [kPathStr],
           dependencies = [length (objPool s) + 2 + length vf + length ef],
           detail = ProjectDetail [\<lparr>expr_y = PathBuildExpression [VertexExpression, EdgeExpression],
                                    alias_y = Some kPathStr\<rparr>]\<rparr>],
        initialExpr := None\<rparr>
     \<and> plan = \<lparr>root = length (objPool s) + 3 + length vf + length ef, tail = length (objPool s)\<rparr>
     \<and> (case nf of None \<Rightarrow> vf = []
         | Some f \<Rightarrow> \<exists>f'. rewriteLabels vertexRewriter f = Inr f'
              \<and> vf = [fltNode ex (length (objPool s) + 3) (length (objPool s) + 2) f'])
     \<and> (case filter_e edge of None \<Rightarrow> ef = []
         | Some f \<Rightarrow> \<exists>f'. rewriteLabels edgeRewriter f = Inr f'
              \<and> ef = [fltNode ex (length (objPool s) + 3 + length vf)
                         (length (objPool s) + 2 + length vf) f'])"
  using assms
  by (auto simp: expandStep_def releaseInitialExpr_def extractAndDedupVidColumn_def attachFilter_def
        buildPathExpr_def genVertexProps_def inputPropExpr_def fltNode_def
        node_defs Let_def nth_append list_update_append eval_nat_numeral
      split: option.splits sum.splits)

lemma expandStep_ok:
  assumes "edgeFilterOk edge"
  shows "\<exists>plan s'. expandStep ex edge dep iv nf s = Inr (plan, s')"
  using assms
  by (auto simp: expandStep_def edgeFilterOk_def rewrite_vertex rewrite_edge Let_def split_def
      split: option.splits sum.splits)

lemma expandStep_fail:
  assumes "\<not> edgeFilterOk edge"
  shows "expandStep ex edge dep iv nf s = Inl DCheckFailed"
  using assms
  by (auto simp: expandStep_def edgeFilterOk_def rewrite_vertex rewrite_edge Let_def split_def
      split: option.splits sum.splits)

lemma expandStep_new:
  assumes "expandStep ex edge dep iv nf s = Inr (plan, s')"
  shows "\<exists>ns. objPool s' = objPool s @ ns \<and> initialExpr s' = None
           \<and> countKind kGetNeighbors ns = 1 \<and> countKind kUnion ns = 0
           \<and> countKind kInnerJoin ns = 0
           \<and> root plan = length (objPool s) + length ns - 1 \<and> 4 \<le> length ns
           \<and> tail plan = length (objPool s)"
proof -
  from expandStep_pool[OF assms] obtain vf ef where
    s': "s' = s\<lparr>objPool := objPool s @
        [\<lparr>kind = kProject, outputVar = newVarName ex kProject (length (objPool s)),
           colNames = [kVid], dependencies = [dep], detail = ExtractVidDetail (initialExpr s) iv\<rparr>,
         \<lparr>kind = kDedup, outputVar = newVarName ex kDedup (length (objPool s) + 1),
           colNames = [kVid], dependencies = [length (objPool s)], detail = NoDetail\<rparr>,
         \<lparr>kind = kGetNeighbors, outputVar = newVarName ex kGetNeighbors (length (objPool s) + 2),
           colNames = [], dependencies = [length (objPool s) + 1],
           detail = GetNeighborsDetail (space_id ex) (InputPropertyExpression kVid) []
                      (genEdgeProps ex edge) (direction edge)\<rparr>]
        @ vf @ ef @
        [\<lparr>kind = kProject,
           outputVar = newVarName ex kProject (length (objPool s) + 3 + length vf + length ef),
           colNames = [kPathStr],
           dependencies = [length (objPool s) + 2 + length vf + length ef],
           detail = ProjectDetail [\<lparr>expr_y = PathBuildExpression [VertexExpression, EdgeExpression],
                                    alias_y = Some kPathStr\<rparr>]\<rparr>],
        initialExpr := None\<rparr>"
    and plan: "plan = \<lparr>root = length (objPool s) + 3 + length vf + length ef, tail = length (objPool s)\<rparr>"
    and vf: "(case nf of None \<Rightarrow> vf = []
         | Some f \<Rightarrow> \<exists>f'. rewriteLabels vertexRewriter f = Inr f'
              \<and> vf = [fltNode ex (length (objPool s) + 3) (length (objPool s) + 2) f'])"
    and ef: "(case filter_e edge of None \<Rightarrow> ef = []
         | Some f \<Rightarrow> \<exists>f'. rewriteLabels edgeRewriter f = Inr f'
              \<and> ef = [fltNode ex (length (objPool s) + 3 + length vf)
                         (length (objPool s) + 2 + length vf) f'])"
    by blast
  have kvf: "\<forall>n \<in> set vf. kind n = kFilter"
    using vf by (auto simp: fltNode_def split: option.splits)
  have kef: "\<forall>n \<in> set ef. kind n = kFilter"
    using ef by (auto simp: fltNode_def split: option.splits)
  have c: "\<And>k. k \<noteq> kFilter \<Longrightarrow> countKind k vf = 0 \<and> countKind k ef = 0"
    using kvf kef by (auto simp: countKind_def filter_empty_conv)
  show ?thesis
    apply (rule exI)
    apply (rule conjI)
     apply (simp add: s')
    using c[of kGetNeighbors] c[of kUnion] c[of kInnerJoin]
    apply (simp add: s' plan countKind_def)
    done
qed

subsection \<open>The loop of expandSteps\<close>

lemma countKind_append: "countKind k (xs @ ys) = countKind k xs + countKind k ys"
  by (simp add: countKind_def)

lemma collectData_new:
  assumes "collectData ex jl jr un plan s = (pt', sp', s')"
  shows "\<exists>ns. objPool s' = objPool s @ ns \<and> countKind kUnion ns = 1
           \<and> countKind kInnerJoin ns = 1 \<and> countKind kGetNeighbors ns = 0
           \<and> root sp' = length (objPool s) + 4 \<and> length ns = 5
           \<and> kind (ns ! 4) = kUnion \<and> colNames (ns ! 4) = [kPathStr]"
proof -
  have s': "s' = snd (snd (collectData ex jl jr un plan s))"
    and sp': "sp' = fst (snd (collectData ex jl jr un plan s))"
    using assms by simp_all
  show ?thesis
    apply (rule exI)
    apply (rule conjI)
     apply (simp add: s' collectData_eq)
    apply (simp add: sp' collectData_eq countKind_def)
    done
qed

lemma expandLoopBody_ok:
  assumes ok: "edgeFilterOk edge"
    and r: "root sp < length (objPool s)"
    and k: "kind (objPool s ! root sp) = kUnion \<or> kind (objPool s ! root sp) = kPassThrough"
  shows "\<exists>pt' sp' s' ns. expandLoopBody ex edge (pt, sp, s) = Inr (pt', sp', s')
           \<and> objPool s' = objPool s @ ns
           \<and> countKind kUnion ns = 1 \<and> countKind kInnerJoin ns = 1
           \<and> countKind kGetNeighbors ns = 1
           \<and> root sp' < length (objPool s')
           \<and> kind (objPool s' ! root sp') = kUnion
           \<and> colNames (objPool s' ! root sp') = [kPathStr]"
proof -
  from expandStep_ok[OF ok, where ex = ex and dep = pt and iv = "outputVar (node s pt)"
      and nf = None and s = s]
  obtain curr s1 where
    st: "expandStep ex edge pt (outputVar (node s pt)) None s = Inr (curr, s1)"
    by (elim exE)
  from expandStep_new[OF st] obtain ns1 where
    p1: "objPool s1 = objPool s @ ns1" and
    c1: "countKind kGetNeighbors ns1 = 1" "countKind kUnion ns1 = 0" "countKind kInnerJoin ns1 = 0"
    by (elim exE conjE)
  have same: "node s1 (root sp) = objPool s ! root sp"
    using r by (simp add: node_def p1 nth_append)
  have body: "expandLoopBody ex edge (pt, sp, s) = Inr (collectData ex pt (root curr) (root sp) sp s1)"
    using k by (simp add: expandLoopBody_def st same Let_def)
  obtain pt' sp' s' where cd: "collectData ex pt (root curr) (root sp) sp s1 = (pt', sp', s')"
    by (cases "collectData ex pt (root curr) (root sp) sp s1") auto
  from collectData_new[OF cd] obtain ns2 where
    p2: "objPool s' = objPool s1 @ ns2" and
    c2: "countKind kUnion ns2 = 1" "countKind kInnerJoin ns2 = 1" "countKind kGetNeighbors ns2 = 0"
    and r2: "root sp' = length (objPool s1) + 4" "length ns2 = 5"
    and k2: "kind (ns2 ! 4) = kUnion" "colNames (ns2 ! 4) = [kPathStr]"
    by (elim exE conjE)
  have rt: "root sp' < length (objPool s')" "kind (objPool s' ! root sp') = kUnion"
       "colNames (objPool s' ! root sp') = [kPathStr]"
    using r2 k2 by (simp_all add: p2 nth_append)
  have f1: "objPool s' = objPool s @ (ns1 @ ns2)"
    using p2 p1 by simp
  have f2: "countKind kUnion (ns1 @ ns2) = 1" "countKind kInnerJoin (ns1 @ ns2) = 1"
      "countKind kGetNeighbors (ns1 @ ns2) = 1"
    using c1 c2 by (simp_all add: countKind_append)
  have f3: "expandLoopBody ex edge (pt, sp, s) = Inr (pt', sp', s')"
    using body cd by simp
  show ?thesis
    by (rule exI[of _ pt'], rule exI[of _ sp'], rule exI[of _ s'], rule exI[of _ "ns1 @ ns2"])
       (intro conjI f1 f2 f3 rt)
qed

lemma expandLoop_repeat:
  "expandLoop ex edge i m st = repeatBody (nat (m - i)) (expandLoopBody ex edge) st"
proof (induction ex edge i m st rule: expandLoop.induct)
  case (1 ex edge i m st)
  show ?case
  proof (cases "i < m")
    case True
    then have n: "nat (m - i) = Suc (nat (m - (i + 1)))" by simp
    show ?thesis
      using True "1.IH" by (subst expandLoop.simps) (simp add: n split: sum.splits)
  next
    case False
    then show ?thesis by (subst expandLoop.simps) simp
  qed
qed

lemma repeatBody_ok:
  assumes ok: "edgeFilterOk edge"
  shows "root sp < length (objPool s) \<Longrightarrow>
     kind (objPool s ! root sp) = kUnion \<or> kind (objPool s ! root sp) = kPassThrough \<Longrightarrow>
     \<exists>pt' sp' s' ns. repeatBody n (expandLoopBody ex edge) (pt, sp, s) = Inr (pt', sp', s')
        \<and> objPool s' = objPool s @ ns
        \<and> countKind kUnion ns = n \<and> countKind kInnerJoin ns = n
        \<and> countKind kGetNeighbors ns = n
        \<and> root sp' < length (objPool s')
        \<and> (0 < n \<longrightarrow> kind (objPool s' ! root sp') = kUnion
                      \<and> colNames (objPool s' ! root sp') = [kPathStr])
        \<and> (n = 0 \<longrightarrow> pt' = pt \<and> sp' = sp \<and> s' = s)"
proof (induction n arbitrary: pt sp s)
  case 0
  then show ?case by (simp add: countKind_def)
next
  case (Suc n)
  from expandLoopBody_ok[OF ok Suc.prems, where ex = ex and pt = pt] obtain pt1 sp1 s1 ns1 where
    b: "expandLoopBody ex edge (pt, sp, s) = Inr (pt1, sp1, s1)"
    and p1: "objPool s1 = objPool s @ ns1"
    and c1: "countKind kUnion ns1 = 1" "countKind kInnerJoin ns1 = 1" "countKind kGetNeighbors ns1 = 1"
    and r1: "root sp1 < length (objPool s1)"
    and k1: "kind (objPool s1 ! root sp1) = kUnion" "colNames (objPool s1 ! root sp1) = [kPathStr]"
    by (elim exE conjE)
  have kk: "kind (objPool s1 ! root sp1) = kUnion \<or> kind (objPool s1 ! root sp1) = kPassThrough"
    using k1 by simp
  from Suc.IH[where pt = pt1 and sp = sp1 and s = s1, OF r1 kk] obtain pt' sp' s' ns where
    rb: "repeatBody n (expandLoopBody ex edge) (pt1, sp1, s1) = Inr (pt', sp', s')"
    and p: "objPool s' = objPool s1 @ ns"
    and c: "countKind kUnion ns = n" "countKind kInnerJoin ns = n" "countKind kGetNeighbors ns = n"
    and r': "root sp' < length (objPool s')"
    and k': "0 < n \<longrightarrow> kind (objPool s' ! root sp') = kUnion \<and> colNames (objPool s' ! root sp') = [kPathStr]"
    and z: "n = 0 \<longrightarrow> pt' = pt1 \<and> sp' = sp1 \<and> s' = s1"
    by (elim exE conjE)
  have g1: "repeatBody (Suc n) (expandLoopBody ex edge) (pt, sp, s) = Inr (pt', sp', s')"
    using b rb by simp
  have g2: "objPool s' = objPool s @ (ns1 @ ns)" using p p1 by simp
  have g3: "countKind kUnion (ns1 @ ns) = Suc n" "countKind kInnerJoin (ns1 @ ns) = Suc n"
     "countKind kGetNeighbors (ns1 @ ns) = Suc n"
    using c c1 by (simp_all add: countKind_append)
  have g4: "0 < Suc n \<longrightarrow> kind (objPool s' ! root sp') = kUnion \<and> colNames (objPool s' ! root sp') = [kPathStr]"
    using k' z k1 by (cases "n = 0") auto
  have g5: "Suc n = 0 \<longrightarrow> pt' = pt \<and> sp' = sp \<and> s' = s" by simp
  show ?case
    by (rule exI[of _ pt'], rule exI[of _ sp'], rule exI[of _ s'], rule exI[of _ "ns1 @ ns"])
       (intro conjI g1 g2 g3 g4 g5 r')
qed

lemma expandStep_filters:
  assumes "expandStep ex edge dep iv nf s = Inr (plan, s')"
  shows "(\<forall>f. nf = Some f \<longrightarrow>
            kind (node s' (length (objPool s) + 3)) = kFilter
          \<and> dependencies (node s' (length (objPool s) + 3)) = [length (objPool s) + 2]
          \<and> detail (node s' (length (objPool s) + 3)) = FilterDetail (substLabels VertexExpression f))
       \<and> (\<forall>g. filter_e edge = Some g \<longrightarrow> \<not> hasLabel g
          \<and> kind (node s' (root plan - 1)) = kFilter
          \<and> dependencies (node s' (root plan - 1)) = [root plan - 2]
          \<and> detail (node s' (root plan - 1)) = FilterDetail (substLabels EdgeExpression g))"
  using expandStep_pool[OF assms]
  by (auto simp: node_def nth_append fltNode_def rewrite_vertex rewrite_edge eval_nat_numeral
      split: option.splits if_splits)

lemma filterDatasetByPathLength_eq:
  assumes "input < length (objPool s)"
  shows "filterDatasetByPathLength ex edge input plan s =
     (plan\<lparr>root := length (objPool s)\<rparr>,
      s\<lparr>objPool := objPool s @
        [\<lparr>kind = kFilter, outputVar = newVarName ex kFilter (length (objPool s)),
          colNames = colNames (objPool s ! input), dependencies = [input],
          detail = FilterDetail
            (RelationalExpression kRelGE
               (FunctionCallExpression ''length'' [InputPropertyExpression kPathStr])
               (ConstantExpression
                  (IntValue (case range_e edge of None \<Rightarrow> 1 | Some r \<Rightarrow> min_r r))))\<rparr>]\<rparr>)"
  using assms
  by (simp add: filterDatasetByPathLength_def inputPropExpr_def node_defs Let_def nth_append)

lemma passThrough_facts:
  "fst (passThrough ex r s) = length (objPool s)"
  "objPool (snd (passThrough ex r s))
     = objPool s @ [objPool (snd (passThrough ex r s)) ! length (objPool s)]"
  "kind (objPool (snd (passThrough ex r s)) ! length (objPool s)) = kPassThrough"
  "dependencies (objPool (snd (passThrough ex r s)) ! length (objPool s)) = [r]"
  "initialExpr (snd (passThrough ex r s)) = initialExpr s"
proof -
  from passThrough_shape[of ex r s] obtain nd where
    p: "passThrough ex r s = (length (objPool s), s\<lparr>objPool := objPool s @ [nd]\<rparr>)"
    and k: "kind nd = kPassThrough" "dependencies nd = [r]"
    by (elim exE conjE)
  show "fst (passThrough ex r s) = length (objPool s)" by (simp add: p)
  show "objPool (snd (passThrough ex r s))
     = objPool s @ [objPool (snd (passThrough ex r s)) ! length (objPool s)]" by (simp add: p)
  show "kind (objPool (snd (passThrough ex r s)) ! length (objPool s)) = kPassThrough"
    by (simp add: p k)
  show "dependencies (objPool (snd (passThrough ex r s)) ! length (objPool s)) = [r]"
    by (simp add: p k)
  show "initialExpr (snd (passThrough ex r s)) = initialExpr s" by (simp add: p)
qed

lemma passThrough_new:
  assumes "n = length (objPool s)"
  shows "kind (objPool (snd (passThrough ex r s)) ! n) = kPassThrough"
    and "dependencies (objPool (snd (passThrough ex r s)) ! n) = [r]"
  using assms by (simp_all add: passThrough_facts(3,4))

lemma passThrough_length:
  "length (objPool (snd (passThrough ex r s))) = Suc (length (objPool s))"
  by (subst passThrough_facts(2)) simp

lemma expandStart_nonzero:
  assumes "minHopOf edge \<noteq> 0"
    and "expandStep ex edge (dependency ex) (inputVar ex) (filter_n nd) s = Inr (frag, s1)"
  shows "expandStart ex nd edge plan s =
           Inr (1, frag\<lparr>root := length (objPool s1)\<rparr>, snd (passThrough ex (root frag) s1))"
  using assms by (simp add: expandStart_def Let_def split_def passThrough_facts(1))

lemma expandStart_zero:
  assumes "minHopOf edge = 0"
    and "appendFetchVertexPlan ex (filter_n nd) (space_id ex) (initialExpr s) (inputVar ex) plan
           (objPool s) = Inr (sp0, pool0)"
  shows "expandStart ex nd edge plan s =
           (if 0 < maxHopOf edge
            then Inr (0, sp0\<lparr>root := length pool0\<rparr>,
                   snd (passThrough ex (root sp0) (s\<lparr>initialExpr := None, objPool := pool0\<rparr>)))
            else Inr (0, sp0, s\<lparr>initialExpr := None, objPool := pool0\<rparr>))"
  using assms
  by (simp add: expandStart_def Let_def split_def passThrough_facts(1) releaseInitialExpr_def)

lemma expandStart_inv:
  assumes "expandStart ex nd edge plan s = Inr (i0, sp, s1)"
  shows "i0 = (if minHopOf edge = 0 then 0 else 1)"
    and "i0 < maxHopOf edge \<longrightarrow> root sp < length (objPool s1)"
    and "i0 < maxHopOf edge \<longrightarrow> kind (objPool s1 ! root sp) = kPassThrough"
  using assms
  by (auto simp: expandStart_def Let_def split_def passThrough_facts(1) passThrough_new
        passThrough_length releaseInitialExpr_def split: sum.splits if_splits)

lemma expandLoop_ok:
  assumes ok: "edgeFilterOk edge"
    and r: "i < m \<longrightarrow> root sp < length (objPool s)"
    and k: "i < m \<longrightarrow> kind (objPool s ! root sp) = kPassThrough"
  shows "\<exists>pt' sp' s' ns. expandLoop ex edge i m (pt, sp, s) = Inr (pt', sp', s')
        \<and> objPool s' = objPool s @ ns
        \<and> countKind kUnion ns = nat (m - i) \<and> countKind kInnerJoin ns = nat (m - i)
        \<and> countKind kGetNeighbors ns = nat (m - i)"
proof (cases "i < m")
  case True
  have kk: "kind (objPool s ! root sp) = kUnion \<or> kind (objPool s ! root sp) = kPassThrough"
    using k True by simp
  have rr: "root sp < length (objPool s)" using r True by simp
  from repeatBody_ok[OF ok rr kk, where n = "nat (m - i)" and ex = ex and pt = pt]
  obtain pt' sp' s' ns where
    "repeatBody (nat (m - i)) (expandLoopBody ex edge) (pt, sp, s) = Inr (pt', sp', s')"
    "objPool s' = objPool s @ ns" "countKind kUnion ns = nat (m - i)"
    "countKind kInnerJoin ns = nat (m - i)" "countKind kGetNeighbors ns = nat (m - i)"
    by (elim exE conjE)
  then show ?thesis
    unfolding expandLoop_repeat
    by (intro exI conjI)
next
  case False
  then have "expandLoop ex edge i m (pt, sp, s) = Inr (pt, sp, s)"
    by (simp add: expandLoop_repeat)
  moreover have "objPool s = objPool s @ []" by simp
  moreover have "countKind kUnion [] = nat (m - i)" "countKind kInnerJoin [] = nat (m - i)"
    "countKind kGetNeighbors [] = nat (m - i)"
    using False by (simp_all add: countKind_def)
  ultimately show ?thesis by (intro exI conjI)
qed

lemma expandLoop_prefix:
  assumes r: "i < m \<longrightarrow> root sp < length (objPool s)"
    and k: "i < m \<longrightarrow> kind (objPool s ! root sp) = kPassThrough"
    and l: "expandLoop ex edge i m (pt, sp, s) = Inr (pt', sp', s')"
  shows "\<exists>ns. objPool s' = objPool s @ ns"
proof (cases "edgeFilterOk edge")
  case True
  from expandLoop_ok[OF True r k, where ex = ex and pt = pt] l
  show ?thesis by auto
next
  case False
  show ?thesis
  proof (cases "i < m")
    case True
    have "expandLoopBody ex edge (pt, sp, s) = Inl DCheckFailed"
      by (simp add: expandLoopBody_def expandStep_fail[OF False])
    then have "expandLoop ex edge i m (pt, sp, s) = Inl DCheckFailed"
      using True by (subst expandLoop.simps) simp
    with l show ?thesis by simp
  next
    case False
    then have "expandLoop ex edge i m (pt, sp, s) = Inr (pt, sp, s)"
      by (subst expandLoop.simps) simp
    with l show ?thesis by simp
  qed
qed

section \<open>The claims about the plan construction\<close>

text \<open>
  C10. For every plan node \<open>r\<close> of the pool, the node that \<^verbatim>\<open>passThrough\<close> returns is a new
  pass-through node that depends on \<open>r\<close> and has the output variable and the column
  names of \<open>r\<close>; \<open>r\<close> itself and the initial expression are left as they were, the
  pool growing by this one node. Likewise the pass-through node that \<^verbatim>\<open>collectData\<close>
  creates depends on the same-edge filter node and has its output variable.
\<close>

theorem passThrough_frame:
  assumes "r < length (objPool s)"
  shows "(case passThrough ex r s of (pt, s') \<Rightarrow>
            pt = length (objPool s)
          \<and> objPool s' = objPool s @ [node s' pt]
          \<and> kind (node s' pt) = kPassThrough
          \<and> dependencies (node s' pt) = [r]
          \<and> outputVar (node s' pt) = outputVar (node s r)
          \<and> colNames (node s' pt) = colNames (node s r)
          \<and> node s' r = node s r
          \<and> initialExpr s' = initialExpr s)
       \<and> (case collectData ex joinLeft joinRight inUnionNode plan s of (pt, plan', s') \<Rightarrow>
            kind (node s' pt) = kPassThrough
          \<and> dependencies (node s' pt) = [length (objPool s) + 2]
          \<and> kind (node s' (length (objPool s) + 2)) = kFilter
          \<and> detail (node s' (length (objPool s) + 2)) = FilterDetail (sameEdgeCondition kPathStr)
          \<and> outputVar (node s' pt) = outputVar (node s' (length (objPool s) + 2)))"
  using assms
  by (simp add: passThrough_eq collectData_eq node_def nth_append eval_nat_numeral)

theorem passThrough_frame_witness:
  "(case passThrough exampleExpand 0 exampleState of (pt, s') \<Rightarrow>
      pt = 1 \<and> kind (node s' pt) = kPassThrough \<and> dependencies (node s' pt) = [0]
      \<and> outputVar (node s' pt) = ''start'' \<and> colNames (node s' pt) = [kVid]
      \<and> node s' 0 = node exampleState 0)
   \<and> (case collectData exampleExpand 0 0 0 examplePlan exampleState of (pt, plan', s') \<Rightarrow>
      outputVar (node s' pt) = outputVar (node s' 3))"
  using passThrough_frame[of 0 exampleState exampleExpand 0 0 0 examplePlan]
  by (simp add: passThrough_eq collectData_eq exampleState_def node_def eval_nat_numeral)


text \<open>
  C8. Every successful call of \<^verbatim>\<open>expandStep\<close> returns a subplan whose root is the last
  node of the pool, a projection with column names \<^verbatim>\<open>[path]\<close> that projects the path
  built from the vertex and the edge, and whose tail is the first new node, the
  frontier extraction, which depends on the given dependency. The new nodes are, in
  order, the extraction, the dedup, the neighbour fetch, a filter if the node filter
  is given, a filter if the edge has a filter, and the projection; each depends on
  the node before it. The nodes that were in the pool are unchanged.
\<close>

theorem expandStep_subplan:
  assumes "expandStep ex edge dep inVar nodeFilter s = Inr (plan, s')"
  shows "root plan = length (objPool s') - 1
       \<and> kind (node s' (root plan)) = kProject
       \<and> colNames (node s' (root plan)) = [kPathStr]
       \<and> detail (node s' (root plan)) =
           ProjectDetail [\<lparr>expr_y = PathBuildExpression [VertexExpression, EdgeExpression],
                           alias_y = Some kPathStr\<rparr>]
       \<and> tail plan = length (objPool s)
       \<and> kind (node s' (tail plan)) = kProject
       \<and> dependencies (node s' (tail plan)) = [dep]
       \<and> detail (node s' (tail plan)) = ExtractVidDetail (initialExpr s) inVar
       \<and> kind (node s' (tail plan + 1)) = kDedup
       \<and> detail (node s' (tail plan + 2)) =
           GetNeighborsDetail (space_id ex) (InputPropertyExpression kVid) []
             (genEdgeProps ex edge) (direction edge)
       \<and> take (length (objPool s)) (objPool s') = objPool s
       \<and> map kind (drop (length (objPool s)) (objPool s')) =
           [kProject, kDedup, kGetNeighbors]
           @ (case nodeFilter of None \<Rightarrow> [] | Some f \<Rightarrow> [kFilter])
           @ (case filter_e edge of None \<Rightarrow> [] | Some g \<Rightarrow> [kFilter])
           @ [kProject]
       \<and> map dependencies (drop (length (objPool s)) (objPool s')) =
           [dep] # map (\<lambda>i. [i]) [length (objPool s) ..< root plan]"
  using expandStep_pool[OF assms]
  by (auto simp: node_def nth_append fltNode_def eval_nat_numeral upt_conv_Cons
      split: option.splits)

theorem expandStep_subplan_witness:
  "\<exists>plan s'. expandStep exampleExpand exampleEdgeZero 0 ''start'' (filter_n exampleNode)
        exampleState = Inr (plan, s')
     \<and> kind (node s' (root plan)) = kProject \<and> colNames (node s' (root plan)) = [kPathStr]
     \<and> tail plan = 1 \<and> dependencies (node s' (tail plan)) = [0]
     \<and> map kind (drop 1 (objPool s')) =
          [kProject, kDedup, kGetNeighbors, kFilter, kFilter, kProject]"
proof -
  have ok: "edgeFilterOk exampleEdgeZero"
    by (simp add: edgeFilterOk_def exampleEdgeZero_def)
  from expandStep_ok[OF ok, where ex = exampleExpand and dep = 0 and iv = "''start''"
      and nf = "filter_n exampleNode" and s = exampleState]
  obtain plan s' where
    st: "expandStep exampleExpand exampleEdgeZero 0 ''start'' (filter_n exampleNode)
           exampleState = Inr (plan, s')"
    by (elim exE)
  show ?thesis
    using expandStep_subplan[OF st] st
    by (auto simp: exampleState_def exampleNode_def exampleEdgeZero_def)
qed

lemma expandLoopBody_union:
  assumes "expandLoopBody ex edge st = Inr (pt', sp', s')"
  shows "root sp' < length (objPool s') \<and> kind (node s' (root sp')) = kUnion
       \<and> colNames (node s' (root sp')) = [kPathStr]
       \<and> dependencies (node s' (root sp')) = [pt', root (fst (snd st))]
       \<and> pt' < length (objPool s') \<and> kind (node s' pt') = kPassThrough"
proof -
  obtain pt sp s where st: "st = (pt, sp, s)" by (cases st) auto
  from assms have "\<exists>r s1. collectData ex pt r (root sp) sp s1 = (pt', sp', s')"
    by (auto simp: expandLoopBody_def st Let_def split: sum.splits if_splits)
       (rule exI, rule exI, assumption)+
  then obtain r s1 where
    cd: "collectData ex pt r (root sp) sp s1 = (pt', sp', s')"
    by (elim exE)
  show ?thesis
    using cd by (auto simp: collectData_eq st node_def nth_append eval_nat_numeral)
qed

lemma repeatBody_last:
  "repeatBody (Suc n) f x = Inr y \<Longrightarrow> \<exists>z. repeatBody n f x = Inr z \<and> f z = Inr y"
proof (induction n arbitrary: x)
  case 0
  then show ?case by (simp split: sum.splits)
next
  case (Suc n)
  from Suc.prems obtain x1 where x1: "f x = Inr x1" and r: "repeatBody (Suc n) f x1 = Inr y"
    by (auto split: sum.splits)
  from Suc.IH[OF r] obtain z where "repeatBody n f x1 = Inr z" "f z = Inr y" by (elim exE conjE)
  then show ?case using x1 by simp
qed

lemma expandLoop_union:
  assumes "i < m" and "expandLoop ex edge i m st = Inr (pt', sp', s')"
  shows "kind (node s' (root sp')) = kUnion \<and> colNames (node s' (root sp')) = [kPathStr]"
proof -
  from assms(1) obtain n where n: "nat (m - i) = Suc n"
    by (cases "nat (m - i)") auto
  have "repeatBody (Suc n) (expandLoopBody ex edge) st = Inr (pt', sp', s')"
    using assms(2) unfolding expandLoop_repeat n .
  from repeatBody_last[OF this] obtain z where "expandLoopBody ex edge z = Inr (pt', sp', s')"
    by (elim exE conjE)
  from expandLoopBody_union[OF this] show ?thesis by simp
qed

text \<open>
  C4. Every call of \<^verbatim>\<open>collectData\<close> adds five nodes to the pool, each depending only on
  nodes made before it: the inner join of the previous accumulator and the new
  one-hop fragment with column names \<^verbatim>\<open>path_0\<close> and \<^verbatim>\<open>path_1\<close>, the projection that
  builds one path from these two columns with column name \<^verbatim>\<open>path\<close>, the same-edge
  filter over that column, the pass-through accumulator with column name \<^verbatim>\<open>path\<close>,
  and the union of the pass-through with the node that was the root of the running
  union, with column names \<^verbatim>\<open>[path]\<close>. So the root of the subplan after every
  iteration of the loop of \<^verbatim>\<open>expandSteps\<close>, and after the loop once it has run, is a
  union node with the single column name \<^verbatim>\<open>path\<close>.
\<close>

theorem collectData_union_path:
  "collectData ex joinLeft joinRight inUnionNode plan s =
     (length (objPool s) + 3,
      plan\<lparr>tail := length (objPool s), root := length (objPool s) + 4\<rparr>,
      s\<lparr>objPool := objPool s @
         [\<lparr>kind = kInnerJoin, outputVar = newVarName ex kInnerJoin (length (objPool s)),
           colNames = [kPathStr @ ''_0'', kPathStr @ ''_1''],
           dependencies = [joinLeft, joinRight], detail = NoDetail\<rparr>,
          \<lparr>kind = kProject, outputVar = newVarName ex kProject (length (objPool s) + 1),
           colNames = [kPathStr], dependencies = [length (objPool s)],
           detail = ProjectDetail
             [\<lparr>expr_y = PathBuildExpression
                  [InputPropertyExpression (kPathStr @ ''_0''),
                   InputPropertyExpression (kPathStr @ ''_1'')],
               alias_y = None\<rparr>]\<rparr>,
          \<lparr>kind = kFilter, outputVar = newVarName ex kFilter (length (objPool s) + 2),
           colNames = [kPathStr], dependencies = [length (objPool s) + 1],
           detail = FilterDetail (sameEdgeCondition kPathStr)\<rparr>,
          \<lparr>kind = kPassThrough, outputVar = newVarName ex kFilter (length (objPool s) + 2),
           colNames = [kPathStr], dependencies = [length (objPool s) + 2], detail = NoDetail\<rparr>,
          \<lparr>kind = kUnion, outputVar = newVarName ex kUnion (length (objPool s) + 4),
           colNames = [kPathStr], dependencies = [length (objPool s) + 3, inUnionNode],
           detail = NoDetail\<rparr>]\<rparr>)
   \<and> (expandLoopBody ex edge st = Inr (pt', sp', s') \<longrightarrow>
        kind (node s' (root sp')) = kUnion \<and> colNames (node s' (root sp')) = [kPathStr]
        \<and> dependencies (node s' (root sp')) = [pt', root (fst (snd st))])
   \<and> (i < m \<and> expandLoop ex edge i m st = Inr (pt', sp', s') \<longrightarrow>
        kind (node s' (root sp')) = kUnion \<and> colNames (node s' (root sp')) = [kPathStr])"
  using expandLoopBody_union[of ex edge st pt' sp' s'] expandLoop_union[of i m ex edge st pt' sp' s']
  by (simp add: collectData_eq)

theorem collectData_union_path_witness:
  "\<exists>pt' sp' s'.
     expandLoopBody exampleExpand exampleEdgeOut
       (1, \<lparr>root = 1, tail = 0\<rparr>, snd (passThrough exampleExpand 0 exampleState))
       = Inr (pt', sp', s')
   \<and> expandLoop exampleExpand exampleEdgeOut 1 2
       (1, \<lparr>root = 1, tail = 0\<rparr>, snd (passThrough exampleExpand 0 exampleState))
       = Inr (pt', sp', s')
   \<and> kind (node s' (root sp')) = kUnion \<and> colNames (node s' (root sp')) = [kPathStr]
   \<and> dependencies (node s' (root sp')) = [pt', 1]"
proof -
  let ?s = "snd (passThrough exampleExpand 0 exampleState)"
  let ?sp = "\<lparr>root = 1, tail = 0\<rparr> :: SubPlan"
  have ok: "edgeFilterOk exampleEdgeOut"
    by (simp add: edgeFilterOk_def exampleEdgeOut_def)
  have r: "root ?sp < length (objPool ?s)"
    by (simp add: passThrough_eq exampleState_def)
  have k: "kind (objPool ?s ! root ?sp) = kUnion \<or> kind (objPool ?s ! root ?sp) = kPassThrough"
    by (simp add: passThrough_eq exampleState_def)
  from expandLoopBody_ok[OF ok r k, where ex = exampleExpand and pt = 1]
  obtain pt' sp' s' where
    b: "expandLoopBody exampleExpand exampleEdgeOut (1, ?sp, ?s) = Inr (pt', sp', s')"
    by (elim exE conjE)
  have l: "expandLoop exampleExpand exampleEdgeOut 1 2 (1, ?sp, ?s) = Inr (pt', sp', s')"
    using b by (simp add: expandLoop_repeat)
  show ?thesis
    using collectData_union_path[of exampleExpand 0 0 0 examplePlan exampleState
        exampleEdgeOut "(1, ?sp, ?s)" pt' sp' s' 1 2] b l
    by auto
qed

text \<open>
  C9. The expression that \<^verbatim>\<open>expandStep\<close> attaches for the vertex filter is the filter
  with every label attribute replaced by the attribute of the same field on the
  vertex and every bare label by the vertex, and neither a label nor a label
  attribute remains in it. For an edge filter without a bare label the attached
  expression is the filter with every label attribute replaced by the attribute of
  the same field on the edge, and no label reference remains. The rule of the
  vertex filter fails its check on every expression that is neither a label nor a
  label attribute, the rule of the edge filter on every expression that is not a
  label attribute; so an edge filter that holds a bare label makes the rewriting,
  and with it \<^verbatim>\<open>expandStep\<close>, fail the check.
\<close>

theorem expandStep_rewrites_labels:
  "rewriteLabels vertexRewriter f = Inr (substLabels VertexExpression f)
   \<and> \<not> hasLabel (substLabels VertexExpression f)
   \<and> \<not> hasLabelAttribute (substLabels VertexExpression f)
   \<and> (\<not> hasLabel g \<longrightarrow>
         rewriteLabels edgeRewriter g = Inr (substLabels EdgeExpression g)
       \<and> \<not> hasLabel (substLabels EdgeExpression g)
       \<and> \<not> hasLabelAttribute (substLabels EdgeExpression g))
   \<and> (hasLabel g \<longrightarrow> rewriteLabels edgeRewriter g = Inl DCheckFailed)
   \<and> (exprKind e \<noteq> kLabelAttribute \<and> exprKind e \<noteq> kLabel \<longrightarrow>
         vertexRewriter e = Inl DCheckFailed)
   \<and> (exprKind e \<noteq> kLabelAttribute \<longrightarrow> edgeRewriter e = Inl DCheckFailed)
   \<and> (expandStep ex edge dep inVar nodeFilter s = Inr (plan, s') \<longrightarrow>
        (\<forall>vf. nodeFilter = Some vf \<longrightarrow>
            kind (node s' (length (objPool s) + 3)) = kFilter
          \<and> dependencies (node s' (length (objPool s) + 3)) = [length (objPool s) + 2]
          \<and> detail (node s' (length (objPool s) + 3))
              = FilterDetail (substLabels VertexExpression vf))
      \<and> (\<forall>ef. filter_e edge = Some ef \<longrightarrow> \<not> hasLabel ef
          \<and> kind (node s' (root plan - 1)) = kFilter
          \<and> dependencies (node s' (root plan - 1)) = [root plan - 2]
          \<and> detail (node s' (root plan - 1)) = FilterDetail (substLabels EdgeExpression ef)))
   \<and> (\<not> edgeFilterOk edge \<longrightarrow>
        expandStep ex edge dep inVar nodeFilter s = Inl DCheckFailed)"
proof -
  have v: "\<not> hasLabel (substLabels VertexExpression f)
      \<and> \<not> hasLabelAttribute (substLabels VertexExpression f)"
    by (rule subst_no_label) simp_all
  have e: "\<not> hasLabel (substLabels EdgeExpression g)
      \<and> \<not> hasLabelAttribute (substLabels EdgeExpression g)"
    by (rule subst_no_label) simp_all
  have r: "exprKind e \<noteq> kLabelAttribute \<and> exprKind e \<noteq> kLabel \<longrightarrow>
         vertexRewriter e = Inl DCheckFailed"
    "exprKind e \<noteq> kLabelAttribute \<longrightarrow> edgeRewriter e = Inl DCheckFailed"
    by (simp_all add: vertexRewriter_def edgeRewriter_def)
  show ?thesis
    using v e r
    by (intro conjI impI expandStep_filters expandStep_fail)
       (simp_all add: rewrite_vertex rewrite_edge)
qed

theorem expandStep_rewrites_labels_witness:
  "(\<exists>plan s'. expandStep exampleExpand exampleEdgeZero 0 ''start'' (filter_n exampleNode)
        exampleState = Inr (plan, s')
      \<and> detail (node s' 4) =
          FilterDetail (RelationalExpression kRelGT
            (AttributeExpression VertexExpression (ConstantExpression (StrValue ''age'')))
            (ConstantExpression (IntValue 18)))
      \<and> detail (node s' (root plan - 1)) =
          FilterDetail (RelationalExpression kRelEQ
            (AttributeExpression EdgeExpression (ConstantExpression (StrValue ''since'')))
            (ConstantExpression (IntValue 2020))))
   \<and> rewriteLabels edgeRewriter
        (RelationalExpression kRelEQ (LabelExpression ''e'') (ConstantExpression (IntValue 1)))
       = Inl DCheckFailed
   \<and> vertexRewriter (InputPropertyExpression ''x'') = Inl DCheckFailed
   \<and> edgeRewriter (LabelExpression ''e'') = Inl DCheckFailed
   \<and> expandStep exampleExpand (exampleEdgeZero\<lparr>filter_e := Some (LabelExpression ''e'')\<rparr>)
        0 ''start'' None exampleState = Inl DCheckFailed"
proof -
  have ok: "edgeFilterOk exampleEdgeZero"
    by (simp add: edgeFilterOk_def exampleEdgeZero_def)
  from expandStep_ok[OF ok, where ex = exampleExpand and dep = 0 and iv = "''start''"
      and nf = "filter_n exampleNode" and s = exampleState]
  obtain plan s' where
    st: "expandStep exampleExpand exampleEdgeZero 0 ''start'' (filter_n exampleNode)
           exampleState = Inr (plan, s')"
    by (elim exE)
  have a: "detail (node s' 4) =
          FilterDetail (RelationalExpression kRelGT
            (AttributeExpression VertexExpression (ConstantExpression (StrValue ''age'')))
            (ConstantExpression (IntValue 18)))
      \<and> detail (node s' (root plan - 1)) =
          FilterDetail (RelationalExpression kRelEQ
            (AttributeExpression EdgeExpression (ConstantExpression (StrValue ''since'')))
            (ConstantExpression (IntValue 2020)))"
    using expandStep_rewrites_labels[of _ _ _ exampleExpand exampleEdgeZero 0 "''start''"
        "filter_n exampleNode" exampleState plan s'] st
    by (auto simp: exampleState_def exampleNode_def exampleEdgeZero_def)
  have b: "rewriteLabels edgeRewriter
        (RelationalExpression kRelEQ (LabelExpression ''e'') (ConstantExpression (IntValue 1)))
       = Inl DCheckFailed
   \<and> vertexRewriter (InputPropertyExpression ''x'') = Inl DCheckFailed
   \<and> edgeRewriter (LabelExpression ''e'') = Inl DCheckFailed
   \<and> expandStep exampleExpand (exampleEdgeZero\<lparr>filter_e := Some (LabelExpression ''e'')\<rparr>)
        0 ''start'' None exampleState = Inl DCheckFailed"
    using expandStep_rewrites_labels[of _
        "RelationalExpression kRelEQ (LabelExpression ''e'') (ConstantExpression (IntValue 1))"
        "InputPropertyExpression ''x''" exampleExpand
        "exampleEdgeZero\<lparr>filter_e := Some (LabelExpression ''e'')\<rparr>" 0 "''start''" None
        exampleState]
      expandStep_rewrites_labels[of _ _ "LabelExpression ''e''"]
    by (simp add: edgeFilterOk_def)
  show ?thesis using st a b by blast
qed

text \<open>
  C5. The loop of \<^verbatim>\<open>expandSteps\<close> starts at index 0 when the minimum hop count is 0 and
  at index 1 otherwise, and it is the body run \<open>maxHop - startIndex\<close> times (no time
  when that difference is negative), stopping only if the body fails its check; the
  recursion that models the loop is total, so the loop ends for every \<open>maxHop\<close>. When
  the edge filter holds no bare label the body never fails: the loop returns, it has
  made exactly \<open>maxHop - startIndex\<close> union nodes, as many joins and as many
  neighbour fetches, one of each per iteration, and \<^verbatim>\<open>expandSteps\<close> returns the plan
  with the root the loop ended with.
\<close>

theorem expandSteps_iterations:
  assumes "expandStart ex nd edge plan s = Inr (startIndex, subplan, s1)"
  shows "startIndex = (if minHopOf edge = 0 then 0 else 1)
     \<and> expandLoop ex edge startIndex (maxHopOf edge) (root subplan, subplan, s1)
         = repeatBody (nat (maxHopOf edge - startIndex)) (expandLoopBody ex edge)
             (root subplan, subplan, s1)
     \<and> (edgeFilterOk edge \<longrightarrow> (\<exists>pt' sp' s' ns.
           expandLoop ex edge startIndex (maxHopOf edge) (root subplan, subplan, s1)
             = Inr (pt', sp', s')
         \<and> expandSteps ex nd edge plan s = Inr (plan\<lparr>root := root sp'\<rparr>, s')
         \<and> objPool s' = objPool s1 @ ns
         \<and> countKind kUnion ns = nat (maxHopOf edge - startIndex)
         \<and> countKind kInnerJoin ns = nat (maxHopOf edge - startIndex)
         \<and> countKind kGetNeighbors ns = nat (maxHopOf edge - startIndex)
         \<and> (startIndex \<le> maxHopOf edge \<longrightarrow>
               int (countKind kUnion ns) = maxHopOf edge - startIndex)))"
proof (intro conjI impI)
  show "startIndex = (if minHopOf edge = 0 then 0 else 1)"
    by (rule expandStart_inv(1)[OF assms])
  show "expandLoop ex edge startIndex (maxHopOf edge) (root subplan, subplan, s1)
         = repeatBody (nat (maxHopOf edge - startIndex)) (expandLoopBody ex edge)
             (root subplan, subplan, s1)"
    by (rule expandLoop_repeat)
  assume ok: "edgeFilterOk edge"
  from expandLoop_ok[OF ok expandStart_inv(2)[OF assms] expandStart_inv(3)[OF assms],
      where ex = ex and pt = "root subplan"]
  obtain pt' sp' s' ns where
    l: "expandLoop ex edge startIndex (maxHopOf edge) (root subplan, subplan, s1)
          = Inr (pt', sp', s')"
    and p: "objPool s' = objPool s1 @ ns"
    and c: "countKind kUnion ns = nat (maxHopOf edge - startIndex)"
       "countKind kInnerJoin ns = nat (maxHopOf edge - startIndex)"
       "countKind kGetNeighbors ns = nat (maxHopOf edge - startIndex)"
    by (elim exE conjE)
  have e: "expandSteps ex nd edge plan s = Inr (plan\<lparr>root := root sp'\<rparr>, s')"
    by (simp add: expandSteps_def assms l)
  have i: "startIndex \<le> maxHopOf edge \<longrightarrow>
               int (countKind kUnion ns) = maxHopOf edge - startIndex"
    using c by simp
  show "\<exists>pt' sp' s' ns.
           expandLoop ex edge startIndex (maxHopOf edge) (root subplan, subplan, s1)
             = Inr (pt', sp', s')
         \<and> expandSteps ex nd edge plan s = Inr (plan\<lparr>root := root sp'\<rparr>, s')
         \<and> objPool s' = objPool s1 @ ns
         \<and> countKind kUnion ns = nat (maxHopOf edge - startIndex)
         \<and> countKind kInnerJoin ns = nat (maxHopOf edge - startIndex)
         \<and> countKind kGetNeighbors ns = nat (maxHopOf edge - startIndex)
         \<and> (startIndex \<le> maxHopOf edge \<longrightarrow>
               int (countKind kUnion ns) = maxHopOf edge - startIndex)"
    by (rule exI[of _ pt'], rule exI[of _ sp'], rule exI[of _ s'], rule exI[of _ ns])
       (intro conjI l e p c i)
qed

theorem expandSteps_iterations_witness:
  "\<exists>subplan s1 pt' sp' s' ns.
      expandStart exampleExpand exampleNode exampleEdgeZero examplePlan exampleState
        = Inr (0, subplan, s1)
    \<and> edgeFilterOk exampleEdgeZero
    \<and> expandLoop exampleExpand exampleEdgeZero 0 2 (root subplan, subplan, s1)
        = Inr (pt', sp', s')
    \<and> expandSteps exampleExpand exampleNode exampleEdgeZero examplePlan exampleState
        = Inr (examplePlan\<lparr>root := root sp'\<rparr>, s')
    \<and> objPool s' = objPool s1 @ ns
    \<and> countKind kUnion ns = 2 \<and> countKind kInnerJoin ns = 2
    \<and> countKind kGetNeighbors ns = 2"
proof -
  have ok: "edgeFilterOk exampleEdgeZero"
    by (simp add: edgeFilterOk_def exampleEdgeZero_def)
  have mn: "minHopOf exampleEdgeZero = 0" and mx: "maxHopOf exampleEdgeZero = 2"
    by (simp_all add: minHopOf_def maxHopOf_def exampleEdgeZero_def)
  have "\<exists>sp0 pool0. appendFetchVertexPlan exampleExpand (filter_n exampleNode)
      (space_id exampleExpand) (initialExpr exampleState) (inputVar exampleExpand) examplePlan
      (objPool exampleState) = Inr (sp0, pool0)"
    by (simp add: exampleExpand_def exampleFetchVertex_def)
  then obtain sp0 pool0 where
    f: "appendFetchVertexPlan exampleExpand (filter_n exampleNode)
      (space_id exampleExpand) (initialExpr exampleState) (inputVar exampleExpand) examplePlan
      (objPool exampleState) = Inr (sp0, pool0)"
    by (elim exE)
  from expandStart_zero[OF mn f] have "\<exists>subplan s1.
      expandStart exampleExpand exampleNode exampleEdgeZero examplePlan exampleState
        = Inr (0, subplan, s1)"
    by (simp add: mx)
  then obtain subplan s1 where
    st: "expandStart exampleExpand exampleNode exampleEdgeZero examplePlan exampleState
        = Inr (0, subplan, s1)"
    by (elim exE)
  from expandSteps_iterations[OF st, THEN conjunct2, THEN conjunct2, THEN mp, OF ok]
  obtain pt' sp' s' ns where
    "expandLoop exampleExpand exampleEdgeZero 0 (maxHopOf exampleEdgeZero)
       (root subplan, subplan, s1) = Inr (pt', sp', s')"
    "expandSteps exampleExpand exampleNode exampleEdgeZero examplePlan exampleState
        = Inr (examplePlan\<lparr>root := root sp'\<rparr>, s')"
    "objPool s' = objPool s1 @ ns"
    "countKind kUnion ns = nat (maxHopOf exampleEdgeZero - 0)"
    "countKind kInnerJoin ns = nat (maxHopOf exampleEdgeZero - 0)"
    "countKind kGetNeighbors ns = nat (maxHopOf exampleEdgeZero - 0)"
    by (elim conjE exE)
  then show ?thesis
    using st ok unfolding mx
    by (intro exI conjI) simp_all
qed

text \<open>
  C6. When the minimum hop count is 0, \<^verbatim>\<open>expandSteps\<close> hands the node filter, the
  released initial expression, the input variable and the plan to the fetch-vertex
  collaborator, and no neighbour fetch is made for the zero-hop branch. If the
  maximum hop count is not above 0, the subplan and the pool that the collaborator
  returned are the result: its root is the root of the plan and no node is added. If
  the maximum hop count is above 0, the one node added before the loop is a
  pass-through over that root, with its output variable and column names, and it
  stays in the pool.
\<close>

theorem expandSteps_zero_hop:
  assumes "minHopOf edge = 0"
    and "appendFetchVertexPlan ex (filter_n nd) (space_id ex) (initialExpr s) (inputVar ex) plan
           (objPool s) = Inr (sp0, pool0)"
  shows "(maxHopOf edge \<le> 0 \<longrightarrow>
            expandStart ex nd edge plan s
              = Inr (0, sp0, s\<lparr>initialExpr := None, objPool := pool0\<rparr>)
          \<and> expandSteps ex nd edge plan s
              = Inr (plan\<lparr>root := root sp0\<rparr>, s\<lparr>initialExpr := None, objPool := pool0\<rparr>))
       \<and> (0 < maxHopOf edge \<longrightarrow> (\<exists>ptNode s1.
            expandStart ex nd edge plan s = Inr (0, sp0\<lparr>root := length pool0\<rparr>, s1)
          \<and> objPool s1 = pool0 @ [ptNode] \<and> initialExpr s1 = None
          \<and> kind ptNode = kPassThrough \<and> dependencies ptNode = [root sp0]
          \<and> (root sp0 < length pool0 \<longrightarrow>
                outputVar ptNode = outputVar (pool0 ! root sp0)
              \<and> colNames ptNode = colNames (pool0 ! root sp0))
          \<and> (\<forall>plan' s'. expandSteps ex nd edge plan s = Inr (plan', s') \<longrightarrow>
                take (Suc (length pool0)) (objPool s') = pool0 @ [ptNode])))"
proof (intro conjI impI)
  note st = expandStart_zero[OF assms]
  {
    assume mx: "maxHopOf edge \<le> 0"
    show a: "expandStart ex nd edge plan s
              = Inr (0, sp0, s\<lparr>initialExpr := None, objPool := pool0\<rparr>)"
      using st mx by simp
    show "expandSteps ex nd edge plan s
              = Inr (plan\<lparr>root := root sp0\<rparr>, s\<lparr>initialExpr := None, objPool := pool0\<rparr>)"
      using mx by (simp add: expandSteps_def a expandLoop_repeat)
  }
  assume mx: "0 < maxHopOf edge"
  let ?s0 = "s\<lparr>initialExpr := None, objPool := pool0\<rparr>"
  let ?s1 = "snd (passThrough ex (root sp0) ?s0)"
  let ?pt = "objPool ?s1 ! length pool0"
  have a: "expandStart ex nd edge plan s = Inr (0, sp0\<lparr>root := length pool0\<rparr>, ?s1)"
    using st mx by simp
  have p: "objPool ?s1 = pool0 @ [?pt]"
    using passThrough_facts(2)[of ex "root sp0" ?s0] by simp
  have i: "initialExpr ?s1 = None"
    by (simp add: passThrough_facts(5))
  have k: "kind ?pt = kPassThrough" "dependencies ?pt = [root sp0]"
    by (simp_all add: passThrough_new)
  have o: "root sp0 < length pool0 \<longrightarrow>
                outputVar ?pt = outputVar (pool0 ! root sp0)
              \<and> colNames ?pt = colNames (pool0 ! root sp0)"
    by (simp add: passThrough_eq)
  have f: "\<forall>plan' s'. expandSteps ex nd edge plan s = Inr (plan', s') \<longrightarrow>
                take (Suc (length pool0)) (objPool s') = pool0 @ [?pt]"
  proof (intro allI impI)
    fix plan' s'
    assume e: "expandSteps ex nd edge plan s = Inr (plan', s')"
    then have "\<exists>pt' sp'. expandLoop ex edge 0 (maxHopOf edge)
        (length pool0, sp0\<lparr>root := length pool0\<rparr>, ?s1) = Inr (pt', sp', s')"
      by (auto simp: expandSteps_def a split: sum.splits)
    then obtain pt' sp' where
      l: "expandLoop ex edge 0 (maxHopOf edge)
        (length pool0, sp0\<lparr>root := length pool0\<rparr>, ?s1) = Inr (pt', sp', s')"
      by (elim exE)
    have r1: "0 < maxHopOf edge \<longrightarrow> root (sp0\<lparr>root := length pool0\<rparr>) < length (objPool ?s1)"
      by (subst p) simp
    have k1: "0 < maxHopOf edge \<longrightarrow>
        kind (objPool ?s1 ! root (sp0\<lparr>root := length pool0\<rparr>)) = kPassThrough"
      using k by simp
    from expandLoop_prefix[OF r1 k1 l] obtain ns where "objPool s' = objPool ?s1 @ ns"
      by (elim exE)
    then have "objPool s' = (pool0 @ [?pt]) @ ns" using p by simp
    then show "take (Suc (length pool0)) (objPool s') = pool0 @ [?pt]"
      by simp
  qed
  show "\<exists>ptNode s1.
            expandStart ex nd edge plan s = Inr (0, sp0\<lparr>root := length pool0\<rparr>, s1)
          \<and> objPool s1 = pool0 @ [ptNode] \<and> initialExpr s1 = None
          \<and> kind ptNode = kPassThrough \<and> dependencies ptNode = [root sp0]
          \<and> (root sp0 < length pool0 \<longrightarrow>
                outputVar ptNode = outputVar (pool0 ! root sp0)
              \<and> colNames ptNode = colNames (pool0 ! root sp0))
          \<and> (\<forall>plan' s'. expandSteps ex nd edge plan s = Inr (plan', s') \<longrightarrow>
                take (Suc (length pool0)) (objPool s') = pool0 @ [ptNode])"
    by (rule exI[of _ ?pt], rule exI[of _ ?s1]) (intro conjI a p i k o f)
qed

theorem expandSteps_zero_hop_witness:
  "expandSteps exampleExpand exampleNode exampleEdgeZeroOnly examplePlan exampleState
     = Inr (\<lparr>root = 1, tail = 0\<rparr>,
            \<lparr>objPool =
               [\<lparr>kind = kProject, outputVar = ''start'', colNames = [kVid],
                 dependencies = [], detail = NoDetail\<rparr>,
                \<lparr>kind = kProject, outputVar = ''vertices'', colNames = [kPathStr],
                 dependencies = [0],
                 detail = ProjectDetail
                   [\<lparr>expr_y = PathBuildExpression [VertexExpression], alias_y = None\<rparr>]\<rparr>],
             initialExpr = None\<rparr>)
   \<and> (\<exists>ptNode s1.
        expandStart exampleExpand exampleNode exampleEdgeZero examplePlan exampleState
          = Inr (0, \<lparr>root = 2, tail = 0\<rparr>, s1)
      \<and> length (objPool s1) = 3 \<and> objPool s1 ! 2 = ptNode
      \<and> kind ptNode = kPassThrough \<and> dependencies ptNode = [1]
      \<and> outputVar ptNode = ''vertices'' \<and> colNames ptNode = [kPathStr])"
proof -
  let ?pool = "[\<lparr>kind = kProject, outputVar = ''start'', colNames = [kVid],
                 dependencies = [], detail = NoDetail\<rparr>,
                \<lparr>kind = kProject, outputVar = ''vertices'', colNames = [kPathStr],
                 dependencies = [0],
                 detail = ProjectDetail
                   [\<lparr>expr_y = PathBuildExpression [VertexExpression], alias_y = None\<rparr>]\<rparr>]"
  have f: "appendFetchVertexPlan exampleExpand (filter_n exampleNode)
      (space_id exampleExpand) (initialExpr exampleState) (inputVar exampleExpand) examplePlan
      (objPool exampleState) = Inr (\<lparr>root = 1, tail = 0\<rparr>, ?pool)"
    by (simp add: exampleExpand_def exampleFetchVertex_def exampleState_def examplePlan_def)
  have z: "minHopOf exampleEdgeZeroOnly = 0" "maxHopOf exampleEdgeZeroOnly \<le> 0"
    "minHopOf exampleEdgeZero = 0" "0 < maxHopOf exampleEdgeZero"
    by (simp_all add: minHopOf_def maxHopOf_def exampleEdgeZeroOnly_def exampleEdgeZero_def)
  have a: "expandSteps exampleExpand exampleNode exampleEdgeZeroOnly examplePlan exampleState
     = Inr (\<lparr>root = 1, tail = 0\<rparr>, \<lparr>objPool = ?pool, initialExpr = None\<rparr>)"
    using expandSteps_zero_hop[OF z(1) f] z(2)
    by (simp add: examplePlan_def exampleState_def)
  from expandSteps_zero_hop[OF z(3) f, THEN conjunct2, THEN mp, OF z(4)]
  obtain ptNode s1 where
    b: "expandStart exampleExpand exampleNode exampleEdgeZero examplePlan exampleState
          = Inr (0, \<lparr>root = 1, tail = 0\<rparr>\<lparr>root := length ?pool\<rparr>, s1)"
    "objPool s1 = ?pool @ [ptNode]"
    "kind ptNode = kPassThrough" "dependencies ptNode = [root \<lparr>root = 1, tail = 0\<rparr>]"
    "root \<lparr>root = 1, tail = 0\<rparr> < length ?pool \<longrightarrow>
       outputVar ptNode = outputVar (?pool ! root \<lparr>root = 1, tail = 0\<rparr>)
     \<and> colNames ptNode = colNames (?pool ! root \<lparr>root = 1, tail = 0\<rparr>)"
    by (elim exE conjE)
  have c: "expandStart exampleExpand exampleNode exampleEdgeZero examplePlan exampleState
          = Inr (0, \<lparr>root = 2, tail = 0\<rparr>, s1)
      \<and> length (objPool s1) = 3 \<and> objPool s1 ! 2 = ptNode
      \<and> kind ptNode = kPassThrough \<and> dependencies ptNode = [1]
      \<and> outputVar ptNode = ''vertices'' \<and> colNames ptNode = [kPathStr]"
    using b by simp
  show ?thesis
    by (rule conjI[OF a], rule exI[of _ ptNode], rule exI[of _ s1]) (rule c)
qed

text \<open>
  C7. For an edge without a hop range, and for every edge with minimum hop count at
  least 1 and maximum hop count 1, whose filter holds no bare label, \<^verbatim>\<open>doExpand\<close>
  returns a plan; \<^verbatim>\<open>expandSteps\<close> returns a pass-through over the root of the single
  one-hop fragment; the nodes added hold exactly one neighbour fetch, no union and
  no join; and the last node is the filter comparing the length of the path with the
  minimum hop count, which is 1 when no range is declared and whenever the minimum
  does not exceed the maximum.
\<close>

theorem doExpand_single_hop:
  assumes rng: "range_e edge = None \<or> (\<exists>r. range_e edge = Some r \<and> 1 \<le> min_r r \<and> max_r r = 1)"
    and ok: "edgeFilterOk edge"
  shows "\<exists>frag s1 plan1 s2 plan' s' ns.
       expandStep ex edge (dependency ex) (inputVar ex) (filter_n nd) s = Inr (frag, s1)
     \<and> expandSteps ex nd edge plan s = Inr (plan1, s2)
     \<and> objPool s2 = objPool s1 @ [node s2 (root plan1)]
     \<and> kind (node s2 (root plan1)) = kPassThrough
     \<and> dependencies (node s2 (root plan1)) = [root frag]
     \<and> doExpand ex nd edge plan s = Inr (plan', s')
     \<and> objPool s' = objPool s @ ns
     \<and> countKind kGetNeighbors ns = 1 \<and> countKind kUnion ns = 0
     \<and> countKind kInnerJoin ns = 0
     \<and> objPool s' = objPool s2 @ [node s' (root plan')]
     \<and> kind (node s' (root plan')) = kFilter
     \<and> dependencies (node s' (root plan')) = [root plan1]
     \<and> detail (node s' (root plan')) =
          FilterDetail (RelationalExpression kRelGE
            (FunctionCallExpression ''length'' [InputPropertyExpression kPathStr])
            (ConstantExpression (IntValue (minHopOf edge))))
     \<and> (range_e edge = None \<or> minHopOf edge \<le> maxHopOf edge \<longrightarrow> minHopOf edge = 1)"
proof -
  have mn: "minHopOf edge \<noteq> 0" and mx: "maxHopOf edge = 1"
    using rng by (auto simp: minHopOf_def maxHopOf_def)
  have one: "range_e edge = None \<or> minHopOf edge \<le> maxHopOf edge \<longrightarrow> minHopOf edge = 1"
    using rng by (auto simp: minHopOf_def maxHopOf_def)
  from expandStep_ok[OF ok, where ex = ex and dep = "dependency ex" and iv = "inputVar ex"
      and nf = "filter_n nd" and s = s]
  obtain frag s1 where
    st: "expandStep ex edge (dependency ex) (inputVar ex) (filter_n nd) s = Inr (frag, s1)"
    by (elim exE)
  from expandStep_new[OF st] obtain ns1 where
    p1: "objPool s1 = objPool s @ ns1"
    and c1: "countKind kGetNeighbors ns1 = 1" "countKind kUnion ns1 = 0"
      "countKind kInnerJoin ns1 = 0"
    and r1: "root frag = length (objPool s) + length ns1 - 1" "4 \<le> length ns1"
    by (elim exE conjE)
  from passThrough_shape[of ex "root frag" s1] obtain ptn where
    pt: "passThrough ex (root frag) s1 =
           (length (objPool s1), s1\<lparr>objPool := objPool s1 @ [ptn]\<rparr>)"
    and k2: "kind ptn = kPassThrough" "dependencies ptn = [root frag]"
    by (elim exE conjE)
  let ?s2 = "s1\<lparr>objPool := objPool s1 @ [ptn]\<rparr>"
  let ?plan1 = "plan\<lparr>root := length (objPool s1)\<rparr>"
  let ?fn = "\<lparr>kind = kFilter, outputVar = newVarName ex kFilter (Suc (length (objPool s1))),
          colNames = colNames ptn, dependencies = [length (objPool s1)],
          detail = FilterDetail
            (RelationalExpression kRelGE
               (FunctionCallExpression ''length'' [InputPropertyExpression kPathStr])
               (ConstantExpression (IntValue (minHopOf edge))))\<rparr>"
  let ?s' = "s1\<lparr>objPool := objPool s1 @ [ptn, ?fn]\<rparr>"
  let ?plan' = "plan\<lparr>root := Suc (length (objPool s1))\<rparr>"
  have start: "expandStart ex nd edge plan s =
      Inr (1, frag\<lparr>root := length (objPool s1)\<rparr>, ?s2)"
    using expandStart_nonzero[OF mn st, of plan] by (simp add: pt)
  have steps: "expandSteps ex nd edge plan s = Inr (?plan1, ?s2)"
    by (simp add: expandSteps_def start mx expandLoop_repeat)
  have fd: "filterDatasetByPathLength ex edge (length (objPool s1)) ?plan1 ?s2 = (?plan', ?s')"
    by (simp add: filterDatasetByPathLength_eq minHopOf_def)
  have de: "doExpand ex nd edge plan s = Inr (?plan', ?s')"
    by (simp add: doExpand_def steps fd)
  have all: "objPool ?s' = objPool s @ (ns1 @ [ptn, ?fn])"
    by (simp add: p1)
  have cnt: "countKind kGetNeighbors (ns1 @ [ptn, ?fn]) = 1"
    "countKind kUnion (ns1 @ [ptn, ?fn]) = 0" "countKind kInnerJoin (ns1 @ [ptn, ?fn]) = 0"
    using c1 k2 by (simp_all add: countKind_append) (simp_all add: countKind_def)
  show ?thesis
    apply (rule exI[of _ frag], rule exI[of _ s1], rule exI[of _ ?plan1], rule exI[of _ ?s2])
    apply (rule exI[of _ ?plan'], rule exI[of _ ?s'], rule exI[of _ "ns1 @ [ptn, ?fn]"])
    apply (intro conjI st steps de all cnt one)
    using k2
          apply (simp_all add: node_def nth_append)
    done
qed

theorem doExpand_single_hop_witness:
  "\<exists>plan' s' ns.
      doExpand exampleExpand exampleNode exampleEdgeBoth examplePlan exampleState
        = Inr (plan', s')
    \<and> objPool s' = objPool exampleState @ ns
    \<and> countKind kGetNeighbors ns = 1 \<and> countKind kUnion ns = 0
    \<and> countKind kInnerJoin ns = 0
    \<and> kind (node s' (root plan')) = kFilter
    \<and> detail (node s' (root plan')) =
         FilterDetail (RelationalExpression kRelGE
           (FunctionCallExpression ''length'' [InputPropertyExpression kPathStr])
           (ConstantExpression (IntValue 1)))"
proof -
  have rng: "range_e exampleEdgeBoth = None
      \<or> (\<exists>r. range_e exampleEdgeBoth = Some r \<and> 1 \<le> min_r r \<and> max_r r = 1)"
    by (simp add: exampleEdgeBoth_def)
  have ok: "edgeFilterOk exampleEdgeBoth"
    by (simp add: edgeFilterOk_def exampleEdgeBoth_def)
  have mn: "minHopOf exampleEdgeBoth = 1"
    by (simp add: minHopOf_def exampleEdgeBoth_def)
  from doExpand_single_hop[OF rng ok, of exampleExpand exampleNode exampleState examplePlan]
  obtain plan' s' ns where
    "doExpand exampleExpand exampleNode exampleEdgeBoth examplePlan exampleState
        = Inr (plan', s')"
    "objPool s' = objPool exampleState @ ns"
    "countKind kGetNeighbors ns = 1" "countKind kUnion ns = 0" "countKind kInnerJoin ns = 0"
    "kind (node s' (root plan')) = kFilter"
    "detail (node s' (root plan')) =
         FilterDetail (RelationalExpression kRelGE
           (FunctionCallExpression ''length'' [InputPropertyExpression kPathStr])
           (ConstantExpression (IntValue (minHopOf exampleEdgeBoth))))"
    by (elim exE conjE)
  then show ?thesis
    unfolding mn by (intro exI conjI)
qed

end
